theory Spec2Isabelle
  imports Main
begin

section \<open>Values decoded from contract events\<close>

text \<open>
  The hook \<open>useVaultContract.ts\<close> decodes event topics and values with the Stellar SDK:
  \<open>xdr.ScVal.fromXDR(s, 'base64')\<close> followed by \<open>scValToNative\<close>. The result is a
  JavaScript value: \<open>null\<close>, a boolean, a number (u32, i32), a bigint (the wider integers),
  a string (symbols, strings and addresses), a byte buffer, an array (a vec or tuple) or a
  plain object (a map; \<open>NObj\<close> lists its own properties, and a name listed twice has its
  first value). \<open>NUndefined\<close> is what reading past the end of an array gives, and
  \<open>NFn r\<close> stands for a function-valued property that returns \<open>r\<close> when called (the case
  \<open>typeof o.address === 'function'\<close> of \<open>addressToNative\<close>).
\<close>

datatype native =
    NUndefined
  | NNull
  | NBool bool
  | NNum int
  | NBigInt int
  | NStr string
  | NBytes "nat list"
  | NArr "native list"
  | NObj "(string \<times> native) list"
  | NFn string

text \<open>A JSON scalar as the RPC replies carry it: an integer number or a string.\<close>

datatype jsval = JNum int | JStr string

text \<open>
  What the hook leaves to the JavaScript host. \<open>string_of\<close> is \<open>String(v)\<close> for the values
  whose text is not fixed by their kind (objects, arrays, buffers, functions, numbers beyond
  the safe integers); it is \<open>None\<close> when the conversion throws, as it does for an object
  whose own \<open>toString\<close> is not callable. \<open>ledger_text_of\<close> is the text line 260 computes
  for a ledger value that IEEE doubles do not hold exactly.
\<close>

record js_host =
  string_of :: "native \<Rightarrow> string option"
  ledger_text_of :: "jsval \<Rightarrow> string"

text \<open>
  The integers a JavaScript number holds exactly, with exact arithmetic and decimal text:
  up to \<open>Number.MAX_SAFE_INTEGER = 2^53 - 1\<close> in magnitude.
\<close>

definition safe_integer :: "int \<Rightarrow> bool" where
  "safe_integer n = (- 9007199254740991 \<le> n \<and> n \<le> 9007199254740991)"

text \<open>Decimal rendering of integers, as \<open>String(n)\<close> gives for a safe integer or a bigint.\<close>

definition digit_char :: "nat \<Rightarrow> char" where
  "digit_char d = ''0123456789'' ! d"

fun show_nat :: "nat \<Rightarrow> string" where
  "show_nat n = (if n < 10 then [digit_char n] else show_nat (n div 10) @ [digit_char (n mod 10)])"

declare show_nat.simps [simp del]

definition show_int :: "int \<Rightarrow> string" where
  "show_int i = (if i < 0 then CHR ''-'' # show_nat (nat (- i)) else show_nat (nat i))"

text \<open>
  \<open>String(v)\<close>, \<open>None\<close> when it throws. Strings are returned as they are, safe integers and
  bigints in decimal, booleans and the two empty values by name; everything else is the
  host's.
\<close>

fun js_String :: "js_host \<Rightarrow> native \<Rightarrow> string option" where
  "js_String host (NStr s) = Some s"
| "js_String host (NNum n) = (if safe_integer n then Some (show_int n) else string_of host (NNum n))"
| "js_String host (NBigInt n) = Some (show_int n)"
| "js_String host (NBool b) = Some (if b then ''true'' else ''false'')"
| "js_String host NNull = Some ''null''"
| "js_String host NUndefined = Some ''undefined''"
| "js_String host v = string_of host v"

text \<open>\<open>vec[i]\<close>: reading an array past its end gives \<open>undefined\<close>.\<close>

definition vec_at :: "native list \<Rightarrow> nat \<Rightarrow> native" where
  "vec_at vec i = (if i < length vec then vec ! i else NUndefined)"

text \<open>
  \<open>addressToNative\<close> (lines 43-51 and 404-412, the same text): a string is returned as it
  is; an object whose \<open>address\<close> property is a function or a string gives that address;
  anything else goes through \<open>String(addrScVal ?? '')\<close>, which is the empty string for
  \<open>null\<close> and \<open>undefined\<close> and may throw (\<open>None\<close>).
\<close>

fun addressToNative :: "js_host \<Rightarrow> native \<Rightarrow> string option" where
  "addressToNative host (NStr s) = Some s"
| "addressToNative host (NObj props) =
     (case map_of props ''address'' of
        Some (NFn r) \<Rightarrow> Some r
      | Some (NStr s) \<Rightarrow> Some s
      | _ \<Rightarrow> js_String host (NObj props))"
| "addressToNative host NNull = Some []"
| "addressToNative host NUndefined = Some []"
| "addressToNative host v = js_String host v"

text \<open>
  The values whose text is the host's: those \<open>String\<close> does not render by their kind,
  and, for \<open>addressToNative\<close>, the same values but for an object with a usable \<open>address\<close>.
\<close>

fun string_by_host :: "native \<Rightarrow> bool" where
  "string_by_host (NBytes bs) = True"
| "string_by_host (NArr xs) = True"
| "string_by_host (NObj props) = True"
| "string_by_host (NFn r) = True"
| "string_by_host (NNum n) = (\<not> safe_integer n)"
| "string_by_host v = False"

fun address_by_host :: "native \<Rightarrow> bool" where
  "address_by_host (NObj props) =
     (case map_of props ''address'' of
        Some (NFn r) \<Rightarrow> False
      | Some (NStr s) \<Rightarrow> False
      | _ \<Rightarrow> True)"
| "address_by_host v = string_by_host v"

section \<open>Event decoders\<close>

text \<open>Known contract event names (\<open>EVENT_SYMBOLS\<close>, lines 25-28 and 386-389), in source order.\<close>

definition EVENT_SYMBOLS :: "string list" where
  "EVENT_SYMBOLS =
     [''proposal_created'', ''proposal_approved'', ''proposal_ready'', ''proposal_executed'',
      ''proposal_rejected'', ''signer_added'', ''signer_removed'', ''config_updated'',
      ''initialized'', ''role_assigned'']"

text \<open>
  The SDK's decoder is a parameter \<open>dec\<close>: \<open>dec s = None\<close> when \<open>fromXDR\<close> or
  \<open>scValToNative\<close> throws on \<open>s\<close>, and \<open>Some v\<close> when they return \<open>v\<close>.

  \<open>getEventTypeFromTopic\<close> (lines 30-41 and 391-402): the decoded value is returned when it
  is a string listed in \<open>EVENT_SYMBOLS\<close>; every other value, and every exception, gives
  \<open>'unknown'\<close>.
\<close>

definition getEventTypeFromTopic :: "(string \<Rightarrow> native option) \<Rightarrow> string \<Rightarrow> string" where
  "getEventTypeFromTopic dec topic0Base64 =
     (case dec topic0Base64 of
        None \<Rightarrow> ''unknown''
      | Some nat_v \<Rightarrow>
          (case nat_v of
             NStr s \<Rightarrow> if s \<in> set EVENT_SYMBOLS then s else ''unknown''
           | _ \<Rightarrow> ''unknown''))"

text \<open>
  The same function with the way its call ends made explicit. A block of statements either
  returns a value or throws; \<open>try ... catch\<close> runs the handler when the block throws.
  \<open>topic_try\<close> is the \<open>try\<close> block of lines 31-37 (it throws when the decoder does), and
  the handler of line 39 returns \<open>'unknown'\<close>.
\<close>

datatype 'a outcome = Returned 'a | Thrown

definition try_catch :: "'a outcome \<Rightarrow> 'a outcome \<Rightarrow> 'a outcome" where
  "try_catch block handler = (case block of Returned x \<Rightarrow> Returned x | Thrown \<Rightarrow> handler)"

definition topic_try :: "(string \<Rightarrow> native option) \<Rightarrow> string \<Rightarrow> string outcome" where
  "topic_try dec topic0Base64 =
     (case dec topic0Base64 of
        None \<Rightarrow> Thrown
      | Some nat_v \<Rightarrow>
          (case nat_v of
             NStr s \<Rightarrow> if s \<in> set EVENT_SYMBOLS then Returned s else Returned ''unknown''
           | _ \<Rightarrow> Returned ''unknown''))"

definition getEventTypeFromTopic_call ::
  "(string \<Rightarrow> native option) \<Rightarrow> string \<Rightarrow> string outcome" where
  "getEventTypeFromTopic_call dec topic0Base64 =
     try_catch (topic_try dec topic0Base64) (Returned ''unknown'')"

record parsed_event =
  actor :: string
  details :: "string \<rightharpoonup> native"

text \<open>\<open>vec[2] != null ? String(vec[2]) : ''\<close>, \<open>None\<close> when \<open>String\<close> throws.\<close>

definition amount_text :: "js_host \<Rightarrow> native \<Rightarrow> string option" where
  "amount_text host v = (if v = NNull \<or> v = NUndefined then Some [] else js_String host v)"

text \<open>\<open>native !== null && typeof native === 'object'\<close>, for a value that is not an array.\<close>

definition is_object :: "native \<Rightarrow> bool" where
  "is_object v = (case v of NObj _ \<Rightarrow> True | NBytes _ \<Rightarrow> True | NArr _ \<Rightarrow> True | _ \<Rightarrow> False)"

text \<open>
  The \<open>try\<close> block of \<open>parseEventValue\<close> in the later text of the hook (lines 418-446),
  statement by statement. \<open>details\<close> starts empty and \<open>actor\<close> as the empty string. The
  block throws when the decoder throws and when a \<open>String\<close> conversion throws (inside
  \<open>addressToNative\<close>, or for the amount); the assignments made before that stay. The
  result is the two variables when the block ends, and whether it ended by throwing.
\<close>

definition parseEventValue_try ::
  "(string \<Rightarrow> native option) \<Rightarrow> js_host \<Rightarrow> string \<Rightarrow> string \<Rightarrow> parsed_event \<times> bool" where
  "parseEventValue_try dec host valueXdrBase64 eventType =
     (case dec valueXdrBase64 of
        None \<Rightarrow> (\<lparr>actor = [], details = Map.empty\<rparr>, True)
      | Some nat_v \<Rightarrow>
          (case nat_v of
             NArr vec \<Rightarrow>
               (case addressToNative host (vec_at vec 0) of
                  None \<Rightarrow> (\<lparr>actor = [], details = Map.empty\<rparr>, True)
                | Some a \<Rightarrow>
                    if eventType = ''proposal_created'' \<and> 3 \<le> length vec then
                      (case addressToNative host (vec_at vec 1) of
                         None \<Rightarrow> (\<lparr>actor = a, details = [''proposer'' \<mapsto> NStr a]\<rparr>, True)
                       | Some r \<Rightarrow>
                           (case amount_text host (vec_at vec 2) of
                              None \<Rightarrow>
                                (\<lparr>actor = a,
                                  details = [''proposer'' \<mapsto> NStr a, ''recipient'' \<mapsto> NStr r]\<rparr>,
                                 True)
                            | Some m \<Rightarrow>
                                (\<lparr>actor = a,
                                  details = [''proposer'' \<mapsto> NStr a, ''recipient'' \<mapsto> NStr r,
                                             ''amount'' \<mapsto> NStr m]\<rparr>,
                                 False)))
                    else if eventType = ''proposal_approved'' \<and> 3 \<le> length vec then
                      (\<lparr>actor = a,
                        details = [''approval_count'' \<mapsto> vec_at vec 1,
                                   ''threshold'' \<mapsto> vec_at vec 2]\<rparr>,
                       False)
                    else if eventType = ''proposal_executed'' \<and> 3 \<le> length vec then
                      (case addressToNative host (vec_at vec 1) of
                         None \<Rightarrow> (\<lparr>actor = a, details = Map.empty\<rparr>, True)
                       | Some r \<Rightarrow>
                           (case amount_text host (vec_at vec 2) of
                              None \<Rightarrow> (\<lparr>actor = a, details = [''recipient'' \<mapsto> NStr r]\<rparr>, True)
                            | Some m \<Rightarrow>
                                (\<lparr>actor = a,
                                  details = [''recipient'' \<mapsto> NStr r, ''amount'' \<mapsto> NStr m]\<rparr>,
                                 False)))
                    else if (eventType = ''signer_added'' \<or> eventType = ''signer_removed'')
                            \<and> 2 \<le> length vec then
                      (\<lparr>actor = a, details = [''total_signers'' \<mapsto> vec_at vec 1]\<rparr>, False)
                    else if eventType = ''role_assigned'' \<and> 2 \<le> length vec then
                      (\<lparr>actor = a, details = [''role'' \<mapsto> vec_at vec 1]\<rparr>, False)
                    else (\<lparr>actor = a, details = [''raw'' \<mapsto> nat_v]\<rparr>, False))
           | _ \<Rightarrow>
               (case addressToNative host nat_v of
                  None \<Rightarrow> (\<lparr>actor = [], details = Map.empty\<rparr>, True)
                | Some a \<Rightarrow>
                    (\<lparr>actor = a,
                      details = (if is_object nat_v then [''raw'' \<mapsto> nat_v] else Map.empty)\<rparr>,
                     False))))"

text \<open>The \<open>catch\<close> block, lines 447-449 and 90-92: \<open>details.parseError = true\<close>.\<close>

definition parse_catch :: "parsed_event \<Rightarrow> parsed_event" where
  "parse_catch st = st\<lparr>details := (details st)(''parseError'' \<mapsto> NBool True)\<rparr>"

text \<open>
  \<open>parseEventValue\<close>, lines 414-451: the \<open>try\<close> block, the \<open>catch\<close> block when it threw,
  then \<open>return { actor, details }\<close>. \<open>parseEventValue_call\<close> is how the call ends, and
  \<open>parseEventValue\<close> the value it returns.
\<close>

definition parseEventValue_call ::
  "(string \<Rightarrow> native option) \<Rightarrow> js_host \<Rightarrow> string \<Rightarrow> string \<Rightarrow> parsed_event outcome" where
  "parseEventValue_call dec host valueXdrBase64 eventType =
     (case parseEventValue_try dec host valueXdrBase64 eventType of
        (st, thrown) \<Rightarrow>
          try_catch (if thrown then Thrown else Returned st) (Returned (parse_catch st)))"

definition parseEventValue ::
  "(string \<Rightarrow> native option) \<Rightarrow> js_host \<Rightarrow> string \<Rightarrow> string \<Rightarrow> parsed_event" where
  "parseEventValue dec host valueXdrBase64 eventType =
     (case parseEventValue_try dec host valueXdrBase64 eventType of
        (st, thrown) \<Rightarrow> if thrown then parse_catch st else st)"

text \<open>
  The \<open>try\<close> block of \<open>parseEventValue\<close> in the earlier text of the hook (lines 57-89): it
  has one more branch, for \<open>proposal_rejected\<close>, which records no detail.
\<close>

definition parseEventValue_v1_try ::
  "(string \<Rightarrow> native option) \<Rightarrow> js_host \<Rightarrow> string \<Rightarrow> string \<Rightarrow> parsed_event \<times> bool" where
  "parseEventValue_v1_try dec host valueXdrBase64 eventType =
     (case dec valueXdrBase64 of
        None \<Rightarrow> (\<lparr>actor = [], details = Map.empty\<rparr>, True)
      | Some nat_v \<Rightarrow>
          (case nat_v of
             NArr vec \<Rightarrow>
               (case addressToNative host (vec_at vec 0) of
                  None \<Rightarrow> (\<lparr>actor = [], details = Map.empty\<rparr>, True)
                | Some a \<Rightarrow>
                    if eventType = ''proposal_created'' \<and> 3 \<le> length vec then
                      (case addressToNative host (vec_at vec 1) of
                         None \<Rightarrow> (\<lparr>actor = a, details = [''proposer'' \<mapsto> NStr a]\<rparr>, True)
                       | Some r \<Rightarrow>
                           (case amount_text host (vec_at vec 2) of
                              None \<Rightarrow>
                                (\<lparr>actor = a,
                                  details = [''proposer'' \<mapsto> NStr a, ''recipient'' \<mapsto> NStr r]\<rparr>,
                                 True)
                            | Some m \<Rightarrow>
                                (\<lparr>actor = a,
                                  details = [''proposer'' \<mapsto> NStr a, ''recipient'' \<mapsto> NStr r,
                                             ''amount'' \<mapsto> NStr m]\<rparr>,
                                 False)))
                    else if eventType = ''proposal_approved'' \<and> 3 \<le> length vec then
                      (\<lparr>actor = a,
                        details = [''approval_count'' \<mapsto> vec_at vec 1,
                                   ''threshold'' \<mapsto> vec_at vec 2]\<rparr>,
                       False)
                    else if eventType = ''proposal_executed'' \<and> 3 \<le> length vec then
                      (case addressToNative host (vec_at vec 1) of
                         None \<Rightarrow> (\<lparr>actor = a, details = Map.empty\<rparr>, True)
                       | Some r \<Rightarrow>
                           (case amount_text host (vec_at vec 2) of
                              None \<Rightarrow> (\<lparr>actor = a, details = [''recipient'' \<mapsto> NStr r]\<rparr>, True)
                            | Some m \<Rightarrow>
                                (\<lparr>actor = a,
                                  details = [''recipient'' \<mapsto> NStr r, ''amount'' \<mapsto> NStr m]\<rparr>,
                                 False)))
                    else if eventType = ''proposal_rejected'' then
                      (\<lparr>actor = a, details = Map.empty\<rparr>, False)
                    else if (eventType = ''signer_added'' \<or> eventType = ''signer_removed'')
                            \<and> 2 \<le> length vec then
                      (\<lparr>actor = a, details = [''total_signers'' \<mapsto> vec_at vec 1]\<rparr>, False)
                    else if eventType = ''role_assigned'' \<and> 2 \<le> length vec then
                      (\<lparr>actor = a, details = [''role'' \<mapsto> vec_at vec 1]\<rparr>, False)
                    else (\<lparr>actor = a, details = [''raw'' \<mapsto> nat_v]\<rparr>, False))
           | _ \<Rightarrow>
               (case addressToNative host nat_v of
                  None \<Rightarrow> (\<lparr>actor = [], details = Map.empty\<rparr>, True)
                | Some a \<Rightarrow>
                    (\<lparr>actor = a,
                      details = (if eventType = ''proposal_rejected'' then Map.empty
                                 else if is_object nat_v then [''raw'' \<mapsto> nat_v]
                                 else Map.empty)\<rparr>,
                     False))))"

definition parseEventValue_v1_call ::
  "(string \<Rightarrow> native option) \<Rightarrow> js_host \<Rightarrow> string \<Rightarrow> string \<Rightarrow> parsed_event outcome" where
  "parseEventValue_v1_call dec host valueXdrBase64 eventType =
     (case parseEventValue_v1_try dec host valueXdrBase64 eventType of
        (st, thrown) \<Rightarrow>
          try_catch (if thrown then Thrown else Returned st) (Returned (parse_catch st)))"

definition parseEventValue_v1 ::
  "(string \<Rightarrow> native option) \<Rightarrow> js_host \<Rightarrow> string \<Rightarrow> string \<Rightarrow> parsed_event" where
  "parseEventValue_v1 dec host valueXdrBase64 eventType =
     (case parseEventValue_v1_try dec host valueXdrBase64 eventType of
        (st, thrown) \<Rightarrow> if thrown then parse_catch st else st)"

section \<open>The proposals page\<close>

text \<open>
  \<open>Proposals.tsx\<close>, lines 9-20: the page's \<open>Proposal\<close> and the five string literals its
  \<open>status\<close> may hold. \<open>status_label\<close> gives the literal of each.
\<close>

datatype status = Pending | Approved | Executed | Rejected | Expired

fun status_label :: "status \<Rightarrow> string" where
  "status_label Pending = ''Pending''"
| "status_label Approved = ''Approved''"
| "status_label Executed = ''Executed''"
| "status_label Rejected = ''Rejected''"
| "status_label Expired = ''Expired''"

record Proposal =
  p_id :: int
  p_proposer :: string
  p_recipient :: string
  p_amount :: string
  p_token :: string
  p_memo :: string
  p_status :: status
  p_approvals :: int
  p_threshold :: int
  p_createdAt :: string

definition mockProposals :: "Proposal list" where
  "mockProposals =
     [\<lparr>p_id = 102, p_proposer = ''GA5W...7K9L'', p_recipient = ''GD26L4...Z3X4'',
       p_amount = ''2,500'', p_token = ''XLM'',
       p_memo = ''Quarterly server maintenance costs'', p_status = Pending,
       p_approvals = 1, p_threshold = 3, p_createdAt = ''2h ago''\<rparr>,
      \<lparr>p_id = 101, p_proposer = ''GB2R...4M1P'', p_recipient = ''GCEYUX...R7T2'',
       p_amount = ''12,000'', p_token = ''XLM'',
       p_memo = ''Marketing grant for ecosystem growth'', p_status = Executed,
       p_approvals = 3, p_threshold = 3, p_createdAt = ''1d ago''\<rparr>]"

text \<open>
  What \<open>useWallet()\<close> gives the page and the hook: the connection flag and the address,
  which may be absent.
\<close>

record wallet =
  isConnected :: bool
  address :: "string option"

text \<open>\<open>!address\<close>: the address is absent or the empty string.\<close>

definition no_address :: "string option \<Rightarrow> bool" where
  "no_address a = (case a of None \<Rightarrow> True | Some s \<Rightarrow> s = [])"

text \<open>Line 59: \<open>const userRole = 'Admin'\<close>.\<close>

definition userRole :: string where
  "userRole = ''Admin''"

text \<open>
  \<open>canRejectProposal\<close>, lines 61-64. The function reads \<open>isConnected\<close>, \<open>address\<close> and
  \<open>userRole\<close> from the component around it; here they are its first two arguments, and
  the page calls it with its own \<open>userRole\<close>.
\<close>

definition canRejectProposal :: "string \<Rightarrow> wallet \<Rightarrow> Proposal \<Rightarrow> bool" where
  "canRejectProposal role w proposal =
     (if \<not> isConnected w \<or> no_address (address w) then False
      else (Some (p_proposer proposal) = address w \<or> role = ''Admin''))"

text \<open>
  Line 131: the Reject control of a proposal is rendered when
  \<open>prop.status === 'Pending' && canRejectProposal(prop)\<close>.
\<close>

definition reject_rendered :: "string \<Rightarrow> wallet \<Rightarrow> Proposal \<Rightarrow> bool" where
  "reject_rendered role w prop = (p_status prop = Pending \<and> canRejectProposal role w prop)"

text \<open>
  Lines 131-134: the control carries \<open>disabled={loading}\<close>, where \<open>loading\<close> is the flag of
  the contract hook, so a click reaches \<open>handleRejectClick\<close> when the control is rendered
  and the hook is not loading.
\<close>

definition reject_enabled :: "string \<Rightarrow> bool \<Rightarrow> wallet \<Rightarrow> Proposal \<Rightarrow> bool" where
  "reject_enabled role loading w prop = (reject_rendered role w prop \<and> \<not> loading)"

text \<open>
  The state of the page (lines 54-57) and the toasts sent with \<open>notify\<close> (event, message,
  kind), oldest first.
\<close>

record page_state =
  proposals :: "Proposal list"
  selectedProposal :: "Proposal option"
  showRejectModal :: bool
  rejectingId :: "int option"
  notified :: "(string \<times> string \<times> string) list"

definition initial_page :: page_state where
  "initial_page =
     \<lparr>proposals = mockProposals, selectedProposal = None, showRejectModal = False,
      rejectingId = None, notified = []\<rparr>"

text \<open>A thrown value; the page and the hook read only its \<open>message\<close>.\<close>

datatype js_error = Error (message: string)

text \<open>\<open>handleRejectClick\<close>, lines 66-70.\<close>

definition handleRejectClick :: "int \<Rightarrow> page_state \<Rightarrow> page_state" where
  "handleRejectClick proposalId st = st\<lparr>rejectingId := Some proposalId, showRejectModal := True\<rparr>"

text \<open>
  \<open>handleRejectConfirm\<close>, lines 72-87. \<open>reject\<close> is the hook's \<open>rejectProposal\<close> as the
  page holds it: \<open>Inr hash\<close> when the awaited call returns, \<open>Inl e\<close> when it throws \<open>e\<close>.
  The \<open>finally\<close> block closes the modal and clears \<open>rejectingId\<close> on both paths.
\<close>

definition handleRejectConfirm ::
  "(int \<Rightarrow> js_error + string) \<Rightarrow> page_state \<Rightarrow> page_state" where
  "handleRejectConfirm reject st =
     (case rejectingId st of
        None \<Rightarrow> st
      | Some rid \<Rightarrow>
          (case reject rid of
             Inr h \<Rightarrow>
               st\<lparr>proposals :=
                    map (\<lambda>p. if p_id p = rid then p\<lparr>p_status := Rejected\<rparr> else p) (proposals st),
                  notified := notified st @
                    [(''proposal_rejected'', ''Proposal #'' @ show_int rid @ '' rejected'', ''success'')],
                  showRejectModal := False,
                  rejectingId := None\<rparr>
           | Inl e \<Rightarrow>
               st\<lparr>notified := notified st @
                    [(''proposal_rejected'',
                      (if message e = [] then ''Failed to reject'' else message e), ''error'')],
                  showRejectModal := False,
                  rejectingId := None\<rparr>))"

text \<open>
  What can happen on the page, one event at a time: a click on the card at position \<open>i\<close>
  of the list (line 111), closing the detail view (line 148), a click on the Reject
  control of the card at position \<open>i\<close> while \<open>useWallet()\<close> gives \<open>w\<close> and the hook's flag
  is \<open>loading\<close> (line 133; the click does not reach the card), confirming in the modal,
  with the outcome of the awaited \<open>rejectProposal\<close> (line 156), and cancelling (line 157).
  No other code of the page writes its state.
\<close>

datatype page_event =
    SelectProposal nat
  | CloseDetail
  | ClickReject wallet bool nat
  | ConfirmReject "js_error + string"
  | CancelReject

fun page_step :: "page_state \<Rightarrow> page_event \<Rightarrow> page_state" where
  "page_step st (SelectProposal i) =
     (if i < length (proposals st) then st\<lparr>selectedProposal := Some (proposals st ! i)\<rparr> else st)"
| "page_step st CloseDetail = st\<lparr>selectedProposal := None\<rparr>"
| "page_step st (ClickReject w loading i) =
     (if i < length (proposals st) \<and> reject_enabled userRole loading w (proposals st ! i)
      then handleRejectClick (p_id (proposals st ! i)) st else st)"
| "page_step st (ConfirmReject outcome) = handleRejectConfirm (\<lambda>rid. outcome) st"
| "page_step st CancelReject = st\<lparr>showRejectModal := False\<rparr>"

text \<open>The state of the page after a sequence of events, from the state it is mounted in.\<close>

definition run_page :: "page_event list \<Rightarrow> page_state" where
  "run_page evs = foldl page_step initial_page evs"

section \<open>The contract hook\<close>

text \<open>
  \<open>useVaultContract.ts\<close>. The Soroban RPC server, the transaction builder and the Freighter
  wallet are outside the repository; they are the fields of \<open>rpc\<close>, each giving \<open>Inr\<close> of
  what the call returns or \<open>Inl\<close> of what it throws. Transactions travel as their XDR text.
\<close>

definition CONTRACT_ID :: string where
  "CONTRACT_ID = ''CDXXXXXXXXXXXXXXXXXXXXXXXXXXXXXXXXXXXXXXXXXXXXXXXXXXXXXX''"

definition EVENTS_PAGE_SIZE :: int where
  "EVENTS_PAGE_SIZE = 20"

record StellarBalance =
  asset_type :: string
  balance :: string

record Account =
  accountId :: string
  balances :: "StellarBalance list option"

text \<open>
  The arguments of a contract call as the hook writes them: \<open>new Address(a).toScVal()\<close>,
  \<open>nativeToScVal(BigInt(s))\<close> of a string, \<open>nativeToScVal(BigInt(n), {type: "u64"})\<close> of a
  number or of a string, and \<open>xdr.ScVal.scvSymbol(memo)\<close>. The conversions are the
  builder's, and may throw there.
\<close>

datatype arg =
    ArgAddress string
  | ArgBigInt string
  | ArgU64 int
  | ArgU64Str string
  | ArgSymbol string

record invocation =
  contractAddress :: string
  functionName :: string
  args :: "arg list"

datatype simulation = SimulationError string | SimulationSuccess string

record send_response =
  r_status :: string
  r_hash :: string

record RawEvent =
  ev_type :: string
  ev_ledger :: string
  ev_ledgerClosedAt :: "string option"
  ev_contractId :: "string option"
  ev_id :: string
  ev_pagingToken :: "string option"
  ev_inSuccessfulContractCall :: "bool option"
  ev_topic :: "string list option"
  ev_value :: "string option"

text \<open>The \<open>params\<close> of the \<open>getEvents\<close> request, lines 262-267.\<close>

record events_params =
  filter_contractIds :: "string list"
  pagination_limit :: int
  pagination_cursor :: "string option"
  startLedger :: "string option"

text \<open>
  The JSON of the \<open>getEvents\<close> reply as the hook reads it: \<open>data.error\<close> (here its message,
  empty when it has none) and \<open>data.result\<close> with its \<open>events\<close>, \<open>cursor\<close> and
  \<open>latestLedger\<close>, each of which may be missing.
\<close>

record events_result =
  res_events :: "RawEvent list option"
  res_cursor :: "string option"
  res_latestLedger :: "jsval option"

record events_reply =
  rep_error :: "string option"
  rep_result :: "events_result option"

record rpc =
  getAccount :: "string \<Rightarrow> js_error + Account"
  buildTransaction :: "Account \<Rightarrow> invocation \<Rightarrow> js_error + string"
  simulateTransaction :: "string \<Rightarrow> js_error + simulation"
  assembleTransaction :: "string \<Rightarrow> string \<Rightarrow> js_error + string"
  signTransaction :: "string \<Rightarrow> js_error + string"
  sendTransaction :: "string \<Rightarrow> js_error + send_response"
  parseError :: "js_error \<Rightarrow> js_error"
  fetchLatestLedger :: "js_error + jsval option"
  fetchEvents :: "events_params \<Rightarrow> js_error + events_reply"

text \<open>What an operation does to the outside, in order.\<close>

datatype effect =
    SetLoading bool
  | GetAccount string
  | Simulate string
  | Sign string
  | Send string

text \<open>
  The guard every operation starts with: \<open>if (!isConnected || !address) throw ...\<close>. It
  gives the address the rest of the operation uses.
\<close>

definition wallet_address :: "wallet \<Rightarrow> string option" where
  "wallet_address w = (if \<not> isConnected w \<or> no_address (address w) then None else address w)"

text \<open>
  The body of the \<open>try\<close> block, which the seven operations share word for word up to the
  contract call: fetch the account, build, simulate (a simulation error is thrown as
  \<open>Simulation Failed: ...\<close>), assemble, sign, send. \<open>checkStatus\<close> says whether the
  operation then throws \<open>Transaction submission failed\<close> unless the status is \<open>PENDING\<close>.
\<close>

definition try_submit ::
  "rpc \<Rightarrow> bool \<Rightarrow> string \<Rightarrow> invocation \<Rightarrow> (js_error + string) \<times> effect list" where
  "try_submit env checkStatus addr call =
     (case getAccount env addr of
        Inl e \<Rightarrow> (Inl e, [GetAccount addr])
      | Inr account \<Rightarrow>
     (case buildTransaction env account call of
        Inl e \<Rightarrow> (Inl e, [GetAccount addr])
      | Inr tx \<Rightarrow>
     (case simulateTransaction env tx of
        Inl e \<Rightarrow> (Inl e, [GetAccount addr, Simulate tx])
      | Inr (SimulationError err) \<Rightarrow>
          (Inl (Error (''Simulation Failed: '' @ err)), [GetAccount addr, Simulate tx])
      | Inr (SimulationSuccess sim) \<Rightarrow>
     (case assembleTransaction env tx sim of
        Inl e \<Rightarrow> (Inl e, [GetAccount addr, Simulate tx])
      | Inr preparedTx \<Rightarrow>
     (case signTransaction env preparedTx of
        Inl e \<Rightarrow> (Inl e, [GetAccount addr, Simulate tx, Sign preparedTx])
      | Inr signedXdr \<Rightarrow>
     (case sendTransaction env signedXdr of
        Inl e \<Rightarrow> (Inl e, [GetAccount addr, Simulate tx, Sign preparedTx, Send signedXdr])
      | Inr response \<Rightarrow>
          (if checkStatus \<and> r_status response \<noteq> ''PENDING''
           then Inl (Error ''Transaction submission failed'')
           else Inr (r_hash response),
           [GetAccount addr, Simulate tx, Sign preparedTx, Send signedXdr])))))))"

text \<open>
  \<open>setLoading(true); try {...} catch (e) { throw parseError(e) } finally { setLoading(false) }\<close>
\<close>

definition invoke ::
  "rpc \<Rightarrow> bool \<Rightarrow> string \<Rightarrow> invocation \<Rightarrow> (js_error + string) \<times> effect list" where
  "invoke env checkStatus addr call =
     (case try_submit env checkStatus addr call of
        (Inl e, log) \<Rightarrow> (Inl (parseError env e), SetLoading True # log @ [SetLoading False])
      | (Inr h, log) \<Rightarrow> (Inr h, SetLoading True # log @ [SetLoading False]))"

text \<open>The operations of the later text of the hook (lines 465-977).\<close>

definition proposeTransfer ::
  "rpc \<Rightarrow> wallet \<Rightarrow> string \<Rightarrow> string \<Rightarrow> string \<Rightarrow> string \<Rightarrow> (js_error + string) \<times> effect list" where
  "proposeTransfer env w recipient token amount memo =
     (case wallet_address w of
        None \<Rightarrow> (Inl (Error ''Wallet not connected''), [])
      | Some addr \<Rightarrow>
          invoke env False addr
            \<lparr>contractAddress = CONTRACT_ID, functionName = ''propose_transfer'',
             args = [ArgAddress addr, ArgAddress recipient, ArgAddress token,
                     ArgBigInt amount, ArgSymbol memo]\<rparr>)"

definition rejectProposal :: "rpc \<Rightarrow> wallet \<Rightarrow> int \<Rightarrow> (js_error + string) \<times> effect list" where
  "rejectProposal env w proposalId =
     (case wallet_address w of
        None \<Rightarrow> (Inl (Error ''Wallet not connected''), [])
      | Some addr \<Rightarrow>
          invoke env False addr
            \<lparr>contractAddress = CONTRACT_ID, functionName = ''reject_proposal'',
             args = [ArgAddress addr, ArgU64 proposalId]\<rparr>)"

definition executeProposal :: "rpc \<Rightarrow> wallet \<Rightarrow> int \<Rightarrow> (js_error + string) \<times> effect list" where
  "executeProposal env w proposalId =
     (case wallet_address w of
        None \<Rightarrow> (Inl (Error ''Wallet not connected''), [])
      | Some addr \<Rightarrow>
          invoke env True addr
            \<lparr>contractAddress = CONTRACT_ID, functionName = ''execute_proposal'',
             args = [ArgAddress addr, ArgU64 proposalId]\<rparr>)"

record CreateRecurringPaymentParams =
  cp_recipient :: string
  cp_token :: string
  cp_amount :: string
  cp_memo :: string
  cp_interval :: int

definition schedulePayment ::
  "rpc \<Rightarrow> wallet \<Rightarrow> CreateRecurringPaymentParams \<Rightarrow> (js_error + string) \<times> effect list" where
  "schedulePayment env w params =
     (case wallet_address w of
        None \<Rightarrow> (Inl (Error ''Wallet not connected''), [])
      | Some addr \<Rightarrow>
          invoke env False addr
            \<lparr>contractAddress = CONTRACT_ID, functionName = ''schedule_payment'',
             args = [ArgAddress addr, ArgAddress (cp_recipient params),
                     ArgAddress (cp_token params), ArgBigInt (cp_amount params),
                     ArgSymbol (cp_memo params), ArgU64 (cp_interval params)]\<rparr>)"

definition executeRecurringPayment ::
  "rpc \<Rightarrow> wallet \<Rightarrow> string \<Rightarrow> (js_error + string) \<times> effect list" where
  "executeRecurringPayment env w paymentId =
     (case wallet_address w of
        None \<Rightarrow> (Inl (Error ''Wallet not connected''), [])
      | Some addr \<Rightarrow>
          invoke env False addr
            \<lparr>contractAddress = CONTRACT_ID, functionName = ''execute_recurring_payment'',
             args = [ArgAddress addr, ArgU64Str paymentId]\<rparr>)"

definition cancelRecurringPayment ::
  "rpc \<Rightarrow> wallet \<Rightarrow> string \<Rightarrow> (js_error + string) \<times> effect list" where
  "cancelRecurringPayment env w paymentId =
     (case wallet_address w of
        None \<Rightarrow> (Inl (Error ''Wallet not connected''), [])
      | Some addr \<Rightarrow>
          invoke env False addr
            \<lparr>contractAddress = CONTRACT_ID, functionName = ''cancel_recurring_payment'',
             args = [ArgAddress addr, ArgU64Str paymentId]\<rparr>)"

definition pauseRecurringPayment ::
  "rpc \<Rightarrow> wallet \<Rightarrow> string \<Rightarrow> (js_error + string) \<times> effect list" where
  "pauseRecurringPayment env w paymentId =
     (case wallet_address w of
        None \<Rightarrow> (Inl (Error ''Wallet not connected''), [])
      | Some addr \<Rightarrow>
          invoke env False addr
            \<lparr>contractAddress = CONTRACT_ID, functionName = ''pause_recurring_payment'',
             args = [ArgAddress addr, ArgU64Str paymentId]\<rparr>)"

text \<open>
  The two operations of the earlier text of the hook (lines 113-242). They differ from the
  later ones in throwing \<open>Transaction submission failed\<close> on a status other than
  \<open>PENDING\<close>.
\<close>

definition proposeTransfer_v1 ::
  "rpc \<Rightarrow> wallet \<Rightarrow> string \<Rightarrow> string \<Rightarrow> string \<Rightarrow> string \<Rightarrow> (js_error + string) \<times> effect list" where
  "proposeTransfer_v1 env w recipient token amount memo =
     (case wallet_address w of
        None \<Rightarrow> (Inl (Error ''Wallet not connected''), [])
      | Some addr \<Rightarrow>
          invoke env True addr
            \<lparr>contractAddress = CONTRACT_ID, functionName = ''propose_transfer'',
             args = [ArgAddress addr, ArgAddress recipient, ArgAddress token,
                     ArgBigInt amount, ArgSymbol memo]\<rparr>)"

definition rejectProposal_v1 :: "rpc \<Rightarrow> wallet \<Rightarrow> int \<Rightarrow> (js_error + string) \<times> effect list" where
  "rejectProposal_v1 env w proposalId =
     (case wallet_address w of
        None \<Rightarrow> (Inl (Error ''Wallet not connected''), [])
      | Some addr \<Rightarrow>
          invoke env True addr
            \<lparr>contractAddress = CONTRACT_ID, functionName = ''reject_proposal'',
             args = [ArgAddress addr, ArgU64 proposalId]\<rparr>)"

section \<open>Reading the event log\<close>

text \<open>
  Text is a list of 8-bit characters; one with its top bit set stands for a character
  outside ASCII.
\<close>

definition is_ascii :: "char \<Rightarrow> bool" where
  "is_ascii c = (\<not> digit7 c)"

definition is_space :: "char \<Rightarrow> bool" where
  "is_space c = (c = CHR '' '' \<or> c = CHR 0x09 \<or> c = CHR 0x0A \<or> c = CHR 0x0B \<or> c = CHR 0x0C
                 \<or> c = CHR 0x0D)"

definition is_digit :: "char \<Rightarrow> bool" where
  "is_digit c = (c \<in> set ''0123456789'')"

definition digit_value :: "char \<Rightarrow> nat" where
  "digit_value c = length (takeWhile (\<lambda>d. d \<noteq> c) ''0123456789'')"

definition digits_value :: "string \<Rightarrow> nat" where
  "digits_value ds = foldl (\<lambda>a c. 10 * a + digit_value c) 0 ds"

text \<open>
  The result of \<open>parseInt(x, 10)\<close>: \<open>NaN\<close>, an integer that a JavaScript number holds
  exactly, or a number that is left to the host (\<open>ByHost\<close>): one beyond the safe integers,
  where the result is rounded to a double, or one read from text whose ASCII white space
  is followed by a character outside ASCII, which may be more white space.
\<close>

datatype js_integer = NaN | Exactly int | ByHost

text \<open>
  \<open>parseInt\<close> of a string: leading white space is skipped, a sign is read, then the
  longest run of decimal digits; the result is \<open>NaN\<close> when there is no digit. With the
  radix given as 10 no \<open>0x\<close> prefix is read.
\<close>

definition parseInt_text :: "string \<Rightarrow> js_integer" where
  "parseInt_text s =
     (let t = dropWhile is_space s in
      if t \<noteq> [] \<and> \<not> is_ascii (hd t) then ByHost
      else
        let neg = (t \<noteq> [] \<and> hd t = CHR ''-'');
            u = (if t \<noteq> [] \<and> (hd t = CHR ''-'' \<or> hd t = CHR ''+'') then tl t else t);
            ds = takeWhile is_digit u
        in if ds = [] then NaN
           else if \<not> safe_integer (int (digits_value ds)) then ByHost
           else Exactly (if neg then - int (digits_value ds) else int (digits_value ds)))"

text \<open>
  \<open>parseInt\<close> of a number turns it into text first; for a safe integer that is its decimal
  text, which reads back as the same integer.
\<close>

fun parseInt :: "jsval \<Rightarrow> js_integer" where
  "parseInt (JNum n) = (if safe_integer n then Exactly n else ByHost)"
| "parseInt (JStr s) = parseInt_text s"

text \<open>
  Lines 260 and 266 (645 and 651):
  \<open>String(Math.max(1, parseInt(latestLedger, 10) - 50000))\<close>. \<open>Math.max\<close> of \<open>NaN\<close> is
  \<open>NaN\<close>. For a safe integer \<open>l\<close> the difference is exact when it is positive, and
  negative (whatever its rounding) when \<open>l\<close> is at most 50000, so the result is the exact
  \<open>max 1 (l - 50000)\<close>, a safe integer, in decimal.
\<close>

definition start_ledger_text :: "js_host \<Rightarrow> jsval \<Rightarrow> string" where
  "start_ledger_text host latest =
     (case parseInt latest of
        NaN \<Rightarrow> ''NaN''
      | Exactly l \<Rightarrow> show_int (max 1 (l - 50000))
      | ByHost \<Rightarrow> ledger_text_of host latest)"

text \<open>A string that counts as true in a condition: present and not empty.\<close>

definition truthy :: "string option \<Rightarrow> bool" where
  "truthy x = (case x of None \<Rightarrow> False | Some s \<Rightarrow> s \<noteq> [])"

text \<open>Lines 262-267: the request for a page of events.\<close>

definition events_request ::
  "js_host \<Rightarrow> string option \<Rightarrow> int \<Rightarrow> jsval \<Rightarrow> events_params" where
  "events_request host cursor lim latest =
     (if truthy cursor
      then \<lparr>filter_contractIds = [CONTRACT_ID], pagination_limit = min lim 200,
            pagination_cursor = cursor, startLedger = None\<rparr>
      else \<lparr>filter_contractIds = [CONTRACT_ID], pagination_limit = min lim 200,
            pagination_cursor = None, startLedger = Some (start_ledger_text host latest)\<rparr>)"

record VaultActivity =
  act_id :: string
  act_type :: string
  act_timestamp :: string
  act_ledger :: string
  act_actor :: string
  act_details :: "string \<rightharpoonup> native"
  act_eventId :: string
  act_pagingToken :: "string option"

record GetVaultEventsResult =
  activities :: "VaultActivity list"
  latestLedger :: jsval
  cursor :: "string option"
  hasMore :: bool

text \<open>\<open>ev.topic?.[0]\<close>\<close>

definition topic0_of :: "RawEvent \<Rightarrow> string option" where
  "topic0_of ev = (case ev_topic ev of None \<Rightarrow> None | Some [] \<Rightarrow> None | Some (t # ts) \<Rightarrow> Some t)"

text \<open>
  One activity, lines 665-680 of the later text: an event without a topic has the type
  \<open>'unknown'\<close>, one without a value has no actor and no details; \<open>clock\<close> is
  \<open>new Date().toISOString()\<close>.
\<close>

definition activity_of ::
  "(string \<Rightarrow> native option) \<Rightarrow> js_host \<Rightarrow> string \<Rightarrow> RawEvent \<Rightarrow> VaultActivity" where
  "activity_of dec host clock ev =
     (let eventType = (if truthy (topic0_of ev)
                       then getEventTypeFromTopic dec (the (topic0_of ev)) else ''unknown'');
          pe = (if truthy (ev_value ev)
                then parseEventValue dec host (the (ev_value ev)) eventType
                else \<lparr>actor = [], details = Map.empty\<rparr>)
      in \<lparr>act_id = ev_id ev, act_type = eventType,
          act_timestamp = (if truthy (ev_ledgerClosedAt ev) then the (ev_ledgerClosedAt ev)
                           else clock),
          act_ledger = ev_ledger ev, act_actor = actor pe,
          act_details = (details pe)(''ledger'' \<mapsto> NStr (ev_ledger ev)),
          act_eventId = ev_id ev, act_pagingToken = ev_pagingToken ev\<rparr>)"

text \<open>
  The loop of the earlier text, lines 285-305: an event without a topic is skipped, and the
  value is parsed by the earlier \<open>parseEventValue\<close>.
\<close>

definition activity_of_v1 ::
  "(string \<Rightarrow> native option) \<Rightarrow> js_host \<Rightarrow> string \<Rightarrow> RawEvent \<Rightarrow> VaultActivity" where
  "activity_of_v1 dec host clock ev =
     (let eventType = getEventTypeFromTopic dec (the (topic0_of ev));
          pe = (if truthy (ev_value ev)
                then parseEventValue_v1 dec host (the (ev_value ev)) eventType
                else \<lparr>actor = [], details = Map.empty\<rparr>)
      in \<lparr>act_id = ev_id ev, act_type = eventType,
          act_timestamp = (if truthy (ev_ledgerClosedAt ev) then the (ev_ledgerClosedAt ev)
                           else clock),
          act_ledger = ev_ledger ev, act_actor = actor pe,
          act_details = (details pe)(''ledger'' \<mapsto> NStr (ev_ledger ev)),
          act_eventId = ev_id ev, act_pagingToken = ev_pagingToken ev\<rparr>)"

fun activities_v1 ::
  "(string \<Rightarrow> native option) \<Rightarrow> js_host \<Rightarrow> string \<Rightarrow> RawEvent list \<Rightarrow> VaultActivity list" where
  "activities_v1 dec host clock [] = []"
| "activities_v1 dec host clock (ev # evs) =
     (if \<not> truthy (topic0_of ev) then activities_v1 dec host clock evs
      else activity_of_v1 dec host clock ev # activities_v1 dec host clock evs)"

text \<open>
  \<open>latestLedgerData?.result?.sequence ?? '0'\<close>, and the three readings of the reply:
  \<open>data.result?.events ?? []\<close>, \<open>data.result?.cursor\<close> and \<open>data.result?.latestLedger\<close>.
\<close>

definition latest_of :: "jsval option \<Rightarrow> jsval" where
  "latest_of sequence = (case sequence of None \<Rightarrow> JStr ''0'' | Some v \<Rightarrow> v)"

definition reply_events :: "events_reply \<Rightarrow> RawEvent list" where
  "reply_events data =
     (case rep_result data of
        None \<Rightarrow> []
      | Some r \<Rightarrow> (case res_events r of None \<Rightarrow> [] | Some evs \<Rightarrow> evs))"

definition reply_cursor :: "events_reply \<Rightarrow> string option" where
  "reply_cursor data = (case rep_result data of None \<Rightarrow> None | Some r \<Rightarrow> res_cursor r)"

definition reply_latest :: "events_reply \<Rightarrow> jsval option" where
  "reply_latest data = (case rep_result data of None \<Rightarrow> None | Some r \<Rightarrow> res_latestLedger r)"

definition activities_of ::
  "(string \<Rightarrow> native option) \<Rightarrow> js_host \<Rightarrow> string \<Rightarrow> RawEvent list \<Rightarrow> VaultActivity list" where
  "activities_of dec host clock events = map (activity_of dec host clock) events"

text \<open>What the \<open>catch\<close> of \<open>getVaultEvents\<close> returns (lines 313-316 and 683-686).\<close>

definition no_events :: GetVaultEventsResult where
  "no_events = \<lparr>activities = [], latestLedger = JStr ''0'', cursor = None, hasMore = False\<rparr>"

text \<open>
  \<open>getVaultEvents\<close>, lines 633-687. \<open>limit = None\<close> is a call without the argument, which
  takes \<open>EVENTS_PAGE_SIZE\<close>. The second component is what \<open>console.error\<close> was given.
\<close>

definition getVaultEvents ::
  "rpc \<Rightarrow> (string \<Rightarrow> native option) \<Rightarrow> js_host \<Rightarrow> string \<Rightarrow>
   string option \<Rightarrow> int option \<Rightarrow> GetVaultEventsResult \<times> js_error list" where
  "getVaultEvents env dec host clock cursor_arg limit_arg =
     (let lim = (case limit_arg of None \<Rightarrow> EVENTS_PAGE_SIZE | Some n \<Rightarrow> n) in
      case fetchLatestLedger env of
        Inl e \<Rightarrow> (no_events, [e])
      | Inr sequence \<Rightarrow>
          (case fetchEvents env (events_request host cursor_arg lim (latest_of sequence)) of
             Inl e \<Rightarrow> (no_events, [e])
           | Inr data \<Rightarrow>
               (case rep_error data of
                  Some m \<Rightarrow> (no_events, [Error (if m = [] then ''getEvents failed'' else m)])
                | None \<Rightarrow>
                    (\<lparr>activities = activities_of dec host clock (reply_events data),
                      latestLedger = (case reply_latest data of
                                        None \<Rightarrow> latest_of sequence | Some v \<Rightarrow> v),
                      cursor = reply_cursor data,
                      hasMore = (truthy (reply_cursor data)
                                 \<and> int (length (reply_events data)) = lim)\<rparr>,
                     []))))"

text \<open>\<open>getVaultEvents\<close> of the earlier text, lines 244-317: the same but for the loop.\<close>

definition getVaultEvents_v1 ::
  "rpc \<Rightarrow> (string \<Rightarrow> native option) \<Rightarrow> js_host \<Rightarrow> string \<Rightarrow>
   string option \<Rightarrow> int option \<Rightarrow> GetVaultEventsResult \<times> js_error list" where
  "getVaultEvents_v1 env dec host clock cursor_arg limit_arg =
     (let lim = (case limit_arg of None \<Rightarrow> EVENTS_PAGE_SIZE | Some n \<Rightarrow> n) in
      case fetchLatestLedger env of
        Inl e \<Rightarrow> (no_events, [e])
      | Inr sequence \<Rightarrow>
          (case fetchEvents env (events_request host cursor_arg lim (latest_of sequence)) of
             Inl e \<Rightarrow> (no_events, [e])
           | Inr data \<Rightarrow>
               (case rep_error data of
                  Some m \<Rightarrow> (no_events, [Error (if m = [] then ''getEvents failed'' else m)])
                | None \<Rightarrow>
                    (\<lparr>activities = activities_v1 dec host clock (reply_events data),
                      latestLedger = (case reply_latest data of
                                        None \<Rightarrow> latest_of sequence | Some v \<Rightarrow> v),
                      cursor = reply_cursor data,
                      hasMore = (truthy (reply_cursor data)
                                 \<and> int (length (reply_events data)) = lim)\<rparr>,
                     []))))"

text \<open>
  How the processing of one event of the log ends: the two decoders are called in turn,
  an exception of either would leave the loop, and building the activity cannot throw.
\<close>

definition then_call :: "'a outcome \<Rightarrow> ('a \<Rightarrow> 'b outcome) \<Rightarrow> 'b outcome" where
  "then_call m f = (case m of Thrown \<Rightarrow> Thrown | Returned x \<Rightarrow> f x)"

definition activity_of_call ::
  "(string \<Rightarrow> native option) \<Rightarrow> js_host \<Rightarrow> string \<Rightarrow> RawEvent \<Rightarrow> VaultActivity outcome" where
  "activity_of_call dec host clock ev =
     then_call (if truthy (topic0_of ev)
                then getEventTypeFromTopic_call dec (the (topic0_of ev))
                else Returned ''unknown'')
       (\<lambda>eventType.
     then_call (if truthy (ev_value ev)
                then parseEventValue_call dec host (the (ev_value ev)) eventType
                else Returned \<lparr>actor = [], details = Map.empty\<rparr>)
       (\<lambda>pe.
     Returned
       \<lparr>act_id = ev_id ev, act_type = eventType,
        act_timestamp = (if truthy (ev_ledgerClosedAt ev) then the (ev_ledgerClosedAt ev)
                         else clock),
        act_ledger = ev_ledger ev, act_actor = actor pe,
        act_details = (details pe)(''ledger'' \<mapsto> NStr (ev_ledger ev)),
        act_eventId = ev_id ev, act_pagingToken = ev_pagingToken ev\<rparr>))"

definition activity_of_v1_call ::
  "(string \<Rightarrow> native option) \<Rightarrow> js_host \<Rightarrow> string \<Rightarrow> RawEvent \<Rightarrow> VaultActivity outcome" where
  "activity_of_v1_call dec host clock ev =
     then_call (getEventTypeFromTopic_call dec (the (topic0_of ev)))
       (\<lambda>eventType.
     then_call (if truthy (ev_value ev)
                then parseEventValue_v1_call dec host (the (ev_value ev)) eventType
                else Returned \<lparr>actor = [], details = Map.empty\<rparr>)
       (\<lambda>pe.
     Returned
       \<lparr>act_id = ev_id ev, act_type = eventType,
        act_timestamp = (if truthy (ev_ledgerClosedAt ev) then the (ev_ledgerClosedAt ev)
                         else clock),
        act_ledger = ev_ledger ev, act_actor = actor pe,
        act_details = (details pe)(''ledger'' \<mapsto> NStr (ev_ledger ev)),
        act_eventId = ev_id ev, act_pagingToken = ev_pagingToken ev\<rparr>))"

section \<open>Dashboard figures and recurring payments\<close>

record DashboardStats =
  totalBalance :: string
  totalProposals :: int
  pendingApprovals :: int
  readyToExecute :: int
  activeSigners :: int
  threshold :: string

text \<open>
  \<open>getDashboardStats\<close>, lines 469-494. \<open>fmt\<close> is
  \<open>parseFloat(balance).toLocaleString()\<close>, which depends on the host's locale. Reading
  \<open>balances\<close> of an account that has none throws a \<open>TypeError\<close>, caught like every other
  exception of the block.
\<close>

definition getDashboardStats :: "rpc \<Rightarrow> (string \<Rightarrow> string) \<Rightarrow> DashboardStats \<times> js_error list" where
  "getDashboardStats env fmt =
     (let zero = \<lparr>totalBalance = ''0'', totalProposals = 0, pendingApprovals = 0,
                  readyToExecute = 0, activeSigners = 0, threshold = ''0/0''\<rparr> in
      case getAccount env CONTRACT_ID of
        Inl e \<Rightarrow> (zero, [e])
      | Inr accountInfo \<Rightarrow>
          (case balances accountInfo of
             None \<Rightarrow> (zero, [Error ''TypeError''])
           | Some bs \<Rightarrow>
               (\<lparr>totalBalance =
                    (case find (\<lambda>b. asset_type b = ''native'') bs of
                       None \<Rightarrow> ''0''
                     | Some b \<Rightarrow> fmt (balance b)),
                  totalProposals = 24, pendingApprovals = 3, readyToExecute = 1,
                  activeSigners = 5, threshold = ''3/5''\<rparr>,
                [])))"

datatype payment_status = Active | Paused | Cancelled

record RecurringPayment =
  rp_id :: string
  rp_recipient :: string
  rp_token :: string
  rp_amount :: string
  rp_memo :: string
  rp_interval :: int
  rp_nextPaymentTime :: int
  rp_totalPayments :: int
  rp_status :: payment_status
  rp_createdAt :: int
  rp_creator :: string

text \<open>The mock list of lines 701-741; \<open>now\<close> is \<open>Date.now()\<close>.\<close>

definition mockPayments :: "int \<Rightarrow> RecurringPayment list" where
  "mockPayments now =
     [\<lparr>rp_id = ''1'', rp_recipient = ''GXXXXXXXXXXXXXXXXXXXXXXXXXXXXXXXXXXXXXXXXXXXXXXX1'',
       rp_token = ''CDXXXXXXXXXXXXXXXXXXXXXXXXXXXXXXXXXXXXXXXXXXXXXXXXXXXXXX'',
       rp_amount = ''1000000000'', rp_memo = ''Monthly salary'', rp_interval = 2592000,
       rp_nextPaymentTime = now + 86400000, rp_totalPayments = 12, rp_status = Active,
       rp_createdAt = now - 31536000000,
       rp_creator = ''GYYYYYYYYYYYYYYYYYYYYYYYYYYYYYYYYYYYYYYYYYYYYYYYY''\<rparr>,
      \<lparr>rp_id = ''2'', rp_recipient = ''GXXXXXXXXXXXXXXXXXXXXXXXXXXXXXXXXXXXXXXXXXXXXXXX2'',
       rp_token = ''CDXXXXXXXXXXXXXXXXXXXXXXXXXXXXXXXXXXXXXXXXXXXXXXXXXXXXXX'',
       rp_amount = ''500000000'', rp_memo = ''Weekly subscription'', rp_interval = 604800,
       rp_nextPaymentTime = now - 3600000, rp_totalPayments = 52, rp_status = Active,
       rp_createdAt = now - 15768000000,
       rp_creator = ''GYYYYYYYYYYYYYYYYYYYYYYYYYYYYYYYYYYYYYYYYYYYYYYYY''\<rparr>,
      \<lparr>rp_id = ''3'', rp_recipient = ''GXXXXXXXXXXXXXXXXXXXXXXXXXXXXXXXXXXXXXXXXXXXXXXX3'',
       rp_token = ''CDXXXXXXXXXXXXXXXXXXXXXXXXXXXXXXXXXXXXXXXXXXXXXXXXXXXXXX'',
       rp_amount = ''250000000'', rp_memo = ''Paused service'', rp_interval = 86400,
       rp_nextPaymentTime = now + 86400000, rp_totalPayments = 5, rp_status = Paused,
       rp_createdAt = now - 2592000000,
       rp_creator = ''GYYYYYYYYYYYYYYYYYYYYYYYYYYYYYYYYYYYYYYYYYYYYYYYY''\<rparr>]"

text \<open>
  \<open>getRecurringPayments\<close>, lines 694-748. The account is fetched with
  \<open>.catch(() => null)\<close>, so a failure of the fetch is dropped where it happens, and the mock
  list is returned either way. Nothing else in the \<open>try\<close> block can throw.
\<close>

definition getRecurringPayments :: "rpc \<Rightarrow> int \<Rightarrow> RecurringPayment list \<times> js_error list" where
  "getRecurringPayments env now =
     (case getAccount env CONTRACT_ID of
        Inl e \<Rightarrow> (mockPayments now, [])
      | Inr account \<Rightarrow> (mockPayments now, []))"

section \<open>The spending limit tracker\<close>

text \<open>
  The contract itself (the Rust crate with \<open>lib.rs\<close>, \<open>types.rs\<close>, \<open>storage.rs\<close>, named in
  \<open>docs/ARCHITECTURE.md\<close>) is not among the source files; only the frontend is. What
  follows is therefore written from the specification, sections 3, 4.2, 4.5 and 5.
  Amounts are unsigned and of arbitrary precision, and times are counted from a global
  epoch.
\<close>

text \<open>
  Modelled from the spec: the contract's \<open>Config\<close> (section 3), which is not among the
  source files: the approval threshold, the timelock threshold and delay, and the two
  spending limits.
\<close>

record Config =
  cfg_threshold :: nat
  timelock_threshold :: nat
  timelock_delay :: nat
  daily_limit :: nat
  weekly_limit :: nat

text \<open>
  Modelled from the spec: the contract's \<open>SpendingWindow\<close> (section 3), which is not among
  the source files: the start of the window's bucket and the cumulative amount released
  in it.
\<close>

record SpendingWindow =
  window_start :: nat
  consumed :: nat

text \<open>
  Modelled from the spec: the tracker's stored state, which is not among the source files:
  one window per window type, kept in the ephemeral tier, where a record may be absent.
\<close>

record Tracker =
  daily :: "SpendingWindow option"
  weekly :: "SpendingWindow option"

text \<open>
  Modelled from the spec: the contract's error kinds (section 7), which are not among the
  source files.
\<close>

datatype vault_error =
    Unauthorized | NotFound | InvalidState | AlreadyApproved | LimitExceeded
  | TimelockNotExpired | NotDue | InvalidOperation

text \<open>
  Modelled from the spec: the contract's bucketing of time, which is not among the source
  files: windows are buckets of a fixed size \<open>len\<close> (positive) anchored at the global
  epoch, and this is the start of the bucket that holds \<open>now\<close>.
\<close>

definition bucket_start :: "nat \<Rightarrow> nat \<Rightarrow> nat" where
  "bucket_start len now = (now div len) * len"

text \<open>
  Modelled from the spec: the contract's loading of a window, which is not among the source
  files. A missing record is a window not yet started, with nothing consumed; a record
  whose \<open>window_start\<close> predates the current bucket boundary is reset to zero before the
  check.
\<close>

definition load_window :: "nat \<Rightarrow> nat \<Rightarrow> SpendingWindow option \<Rightarrow> SpendingWindow" where
  "load_window len now stored =
     (let b = bucket_start len now in
      case stored of
        None \<Rightarrow> \<lparr>window_start = b, consumed = 0\<rparr>
      | Some w \<Rightarrow> if window_start w < b then \<lparr>window_start = b, consumed = 0\<rparr> else w)"

text \<open>
  Modelled from the spec: the contract's \<open>check_and_consume(amount, now)\<close> (section 4.2),
  which is not among the source files. It fails with \<open>LimitExceeded\<close> if
  \<open>consumed + amount\<close> would exceed either limit; on success it increments both counters
  in one step. A failed invocation commits nothing, so it returns no tracker.
\<close>

definition check_and_consume ::
  "Config \<Rightarrow> nat \<Rightarrow> nat \<Rightarrow> nat \<Rightarrow> nat \<Rightarrow> Tracker \<Rightarrow> vault_error + Tracker" where
  "check_and_consume cfg day_len week_len amount now t =
     (let d = load_window day_len now (daily t);
          w = load_window week_len now (weekly t)
      in if daily_limit cfg < consumed d + amount \<or> weekly_limit cfg < consumed w + amount
         then Inl LimitExceeded
         else Inr \<lparr>daily = Some (d\<lparr>consumed := consumed d + amount\<rparr>),
                   weekly = Some (w\<lparr>consumed := consumed w + amount\<rparr>)\<rparr>)"

text \<open>
  Modelled from the spec: the two kinds of execution of the contract, which are not among
  the source files: the release of a manual proposal and that of a recurring payment, each
  of some amount at some time. Both run the same \<open>check_and_consume\<close> (sections 4.5 and
  5), and neither touches the counters otherwise.
\<close>

datatype execution = Manual nat nat | Recurring nat nat

fun exec_amount :: "execution \<Rightarrow> nat" where
  "exec_amount (Manual a now) = a"
| "exec_amount (Recurring a now) = a"

fun exec_time :: "execution \<Rightarrow> nat" where
  "exec_time (Manual a now) = now"
| "exec_time (Recurring a now) = now"

fun consume_for :: "Config \<Rightarrow> nat \<Rightarrow> nat \<Rightarrow> Tracker \<Rightarrow> execution \<Rightarrow> vault_error + Tracker" where
  "consume_for cfg day_len week_len t (Manual a now) = check_and_consume cfg day_len week_len a now t"
| "consume_for cfg day_len week_len t (Recurring a now) = check_and_consume cfg day_len week_len a now t"

text \<open>
  Modelled from the spec: the contract's transaction semantics (section 5), which are not
  among the source files: an invocation that fails commits nothing, so the tracker after a
  rejected execution is the tracker before it.
\<close>

definition tracker_after :: "Config \<Rightarrow> nat \<Rightarrow> nat \<Rightarrow> Tracker \<Rightarrow> execution \<Rightarrow> Tracker" where
  "tracker_after cfg day_len week_len t e =
     (case consume_for cfg day_len week_len t e of Inl err \<Rightarrow> t | Inr t' \<Rightarrow> t')"

text \<open>
  Modelled from the spec: a sequence of invocations of the contract, which is not among the
  source files, one after the other (the platform orders them totally). The result is the
  final tracker with the amounts that were released, in order.
\<close>

fun run_executions ::
  "Config \<Rightarrow> nat \<Rightarrow> nat \<Rightarrow> Tracker \<Rightarrow> execution list \<Rightarrow> Tracker \<times> nat list" where
  "run_executions cfg day_len week_len t [] = (t, [])"
| "run_executions cfg day_len week_len t (e # es) =
     (case consume_for cfg day_len week_len t e of
        Inl err \<Rightarrow> run_executions cfg day_len week_len t es
      | Inr t' \<Rightarrow>
          (case run_executions cfg day_len week_len t' es of
             (tf, released) \<Rightarrow> (tf, exec_amount e # released)))"

text \<open>
  Modelled from the spec: the amount a stored window counts against a limit in the bucket
  starting at \<open>b\<close>, by the rollover rule of section 4.2 (the contract's storage is not among
  the source files): nothing when the record is absent or older than the bucket, its
  \<open>consumed\<close> otherwise. It is what a load at any time of that bucket finds.
\<close>

definition counted :: "nat \<Rightarrow> SpendingWindow option \<Rightarrow> nat" where
  "counted b stored =
     (case stored of None \<Rightarrow> 0 | Some w \<Rightarrow> if window_start w < b then 0 else consumed w)"

section \<open>Completed submissions\<close>

text \<open>
  A submission completes with hash \<open>h\<close> when every step of the \<open>try\<close> block returns: the
  account is fetched, the transaction is built, simulated without a simulation error,
  assembled, signed and sent, and, where the operation checks it, the status is
  \<open>PENDING\<close>.
\<close>

definition completes :: "rpc \<Rightarrow> bool \<Rightarrow> string \<Rightarrow> invocation \<Rightarrow> string \<Rightarrow> bool" where
  "completes env checkStatus addr call h =
     (\<exists>account tx sim preparedTx signedXdr response.
        getAccount env addr = Inr account
      \<and> buildTransaction env account call = Inr tx
      \<and> simulateTransaction env tx = Inr (SimulationSuccess sim)
      \<and> assembleTransaction env tx sim = Inr preparedTx
      \<and> signTransaction env preparedTx = Inr signedXdr
      \<and> sendTransaction env signedXdr = Inr response
      \<and> (checkStatus \<longrightarrow> r_status response = ''PENDING'')
      \<and> h = r_hash response)"

definition zero_stats :: DashboardStats where
  "zero_stats =
     \<lparr>totalBalance = ''0'', totalProposals = 0, pendingApprovals = 0, readyToExecute = 0,
      activeSigners = 0, threshold = ''0/0''\<rparr>"

section \<open>Sample inputs\<close>

text \<open>
  Concrete values on which the theorems below are instantiated. \<open>sample_dec\<close> is the
  SDK's decoder on seven inputs: three symbols, the value of a \<open>proposal_created\<close> event
  (the vec of two account addresses and the i128 2500), the value of a
  \<open>proposal_approved\<close> event (an address and the u32 2 and 3), a vec holding the map
  \<open>{toString: 1}\<close>, and, as on every other string, a failure. \<open>sample_host\<close> renders a
  plain object as \<open>[object Object]\<close>, throws on one whose own \<open>toString\<close> is not a
  function, and computes the start ledger of one ledger value beyond the safe integers;
  the theorems below use it on no other value.
\<close>

definition created_xdr :: string where
  "created_xdr = ''AAAAEAAAAAEAAAADAAAAEgAAAAAAAAAAAQEBAQEBAQEBAQEBAQEBAQEBAQEB''
     @ ''AQEBAQEBAQEBAQEAAAASAAAAAAAAAAACAgICAgICAgICAgICAgICAgICAgIC''
     @ ''AgICAgICAgICAgAAAAoAAAAAAAAAAAAAAAAAAAnE''"

definition approved_xdr :: string where
  "approved_xdr = ''AAAAEAAAAAEAAAADAAAAEgAAAAAAAAAAAQEBAQEBAQEBAQEBAQEBAQEBAQEBAQEB''
     @ ''AQEBAQEBAQEAAAADAAAAAgAAAAMAAAAD''"

definition shadowed_xdr :: string where
  "shadowed_xdr = ''AAAAEAAAAAEAAAABAAAAEQAAAAEAAAABAAAADwAAAAh0b1N0cmluZwAAAAMAAAAB''"

definition account_1 :: string where
  "account_1 = ''GAAQCAIBAEAQCAIBAEAQCAIBAEAQCAIBAEAQCAIBAEAQCAIBAEAQDZ7H''"

definition account_2 :: string where
  "account_2 = ''GABAEAQCAIBAEAQCAIBAEAQCAIBAEAQCAIBAEAQCAIBAEAQCAIBAEJXA''"

definition sample_dec :: "string \<Rightarrow> native option" where
  "sample_dec s =
     (if s = ''AAAADwAAABBwcm9wb3NhbF9jcmVhdGVk'' then Some (NStr ''proposal_created'')
      else if s = ''AAAADwAAABFwcm9wb3NhbF9hcHByb3ZlZAAAAA=='' then Some (NStr ''proposal_approved'')
      else if s = created_xdr then Some (NArr [NStr account_1, NStr account_2, NBigInt 2500])
      else if s = approved_xdr then Some (NArr [NStr account_1, NNum 2, NNum 3])
      else if s = shadowed_xdr then Some (NArr [NObj [(''toString'', NNum 1)]])
      else if s = ''AAAADwAAAAV0b2tlbgAAAA=='' then Some (NStr ''token'')
      else None)"

definition sample_host :: js_host where
  "sample_host =
     \<lparr>string_of = (\<lambda>v. case v of
          NObj props \<Rightarrow>
            (case map_of props ''toString'' of
               None \<Rightarrow> Some ''[object Object]''
             | Some (NFn r) \<Rightarrow> Some r
             | Some _ \<Rightarrow> None)
        | _ \<Rightarrow> Some []),
      ledger_text_of = (\<lambda>v. if v = JStr ''9007199254740993'' then ''9007199254690992''
                            else ''NaN'')\<rparr>"

definition connected_wallet :: wallet where
  "connected_wallet = \<lparr>isConnected = True, address = Some ''GA5W...7K9L''\<rparr>"

definition disconnected_wallet :: wallet where
  "disconnected_wallet = \<lparr>isConnected = False, address = None\<rparr>"

definition stranger_wallet :: wallet where
  "stranger_wallet = \<lparr>isConnected = True, address = Some account_2\<rparr>"

definition sample_event :: RawEvent where
  "sample_event =
     \<lparr>ev_type = ''contract'', ev_ledger = ''60000'', ev_ledgerClosedAt = Some ''2024-01-01T00:00:00Z'',
      ev_contractId = Some CONTRACT_ID, ev_id = ''0000000257698037760-0000000001'',
      ev_pagingToken = Some ''0000000257698037760-0000000001'',
      ev_inSuccessfulContractCall = Some True,
      ev_topic = Some [''AAAADwAAABBwcm9wb3NhbF9jcmVhdGVk''],
      ev_value = Some created_xdr\<rparr>"

definition working_rpc :: rpc where
  "working_rpc =
     \<lparr>getAccount = (\<lambda>a. Inr \<lparr>accountId = a,
              balances = Some [\<lparr>asset_type = ''native'', balance = ''100.5''\<rparr>]\<rparr>),
      buildTransaction = (\<lambda>account call. Inr (functionName call)),
      simulateTransaction = (\<lambda>tx. Inr (SimulationSuccess ''footprint'')),
      assembleTransaction = (\<lambda>tx sim. Inr (tx @ ''+'' @ sim)),
      signTransaction = (\<lambda>x. Inr (''signed:'' @ x)),
      sendTransaction = (\<lambda>x. Inr \<lparr>r_status = ''PENDING'', r_hash = ''abc123''\<rparr>),
      parseError = (\<lambda>e. e),
      fetchLatestLedger = Inr (Some (JNum 60000)),
      fetchEvents = (\<lambda>ps. Inr \<lparr>rep_error = None,
              rep_result = Some \<lparr>res_events = Some [sample_event], res_cursor = Some ''c1'',
                                 res_latestLedger = Some (JNum 60000)\<rparr>\<rparr>)\<rparr>"

definition offline_rpc :: rpc where
  "offline_rpc =
     \<lparr>getAccount = (\<lambda>a. Inl (Error ''offline'')),
      buildTransaction = (\<lambda>account call. Inl (Error ''offline'')),
      simulateTransaction = (\<lambda>tx. Inl (Error ''offline'')),
      assembleTransaction = (\<lambda>tx sim. Inl (Error ''offline'')),
      signTransaction = (\<lambda>x. Inl (Error ''offline'')),
      sendTransaction = (\<lambda>x. Inl (Error ''offline'')),
      parseError = (\<lambda>e. e),
      fetchLatestLedger = Inl (Error ''offline''),
      fetchEvents = (\<lambda>ps. Inl (Error ''offline''))\<rparr>"

definition sample_config :: Config where
  "sample_config =
     \<lparr>cfg_threshold = 2, timelock_threshold = 5000, timelock_delay = 2000,
      daily_limit = 1000, weekly_limit = 5000\<rparr>"

definition empty_tracker :: Tracker where
  "empty_tracker = \<lparr>daily = None, weekly = None\<rparr>"

section \<open>Properties of the event decoders\<close>

lemma EVENT_SYMBOLS_set:
  "set EVENT_SYMBOLS =
     {''proposal_created'', ''proposal_approved'', ''proposal_ready'', ''proposal_executed'',
      ''proposal_rejected'', ''signer_added'', ''signer_removed'', ''role_assigned'',
      ''config_updated'', ''initialized''}"
  unfolding EVENT_SYMBOLS_def by (simp add: insert_commute)

lemma unknown_not_known: "''unknown'' \<notin> set EVENT_SYMBOLS"
  by (simp add: EVENT_SYMBOLS_def)

text \<open>
  C6. The event types the program recognizes are exactly the ten names
  \<open>proposal_created\<close>, \<open>proposal_approved\<close>, \<open>proposal_ready\<close>, \<open>proposal_executed\<close>,
  \<open>proposal_rejected\<close>, \<open>signer_added\<close>, \<open>signer_removed\<close>, \<open>role_assigned\<close>,
  \<open>config_updated\<close>, \<open>initialized\<close>. For every topic, \<open>getEventTypeFromTopic\<close> returns the
  decoded name when it is one of the ten, and \<open>'unknown'\<close> for every other decoded value;
  so its result is one of the ten if and only if the decoded value is.
\<close>

theorem getEventTypeFromTopic_known_names:
  fixes dec :: "string \<Rightarrow> native option" and topic :: string
  defines "known \<equiv> {''proposal_created'', ''proposal_approved'', ''proposal_ready'',
      ''proposal_executed'', ''proposal_rejected'', ''signer_added'', ''signer_removed'',
      ''role_assigned'', ''config_updated'', ''initialized''}"
  shows "set EVENT_SYMBOLS = known \<and> distinct EVENT_SYMBOLS \<and> length EVENT_SYMBOLS = 10
    \<and> (\<forall>s. dec topic = Some (NStr s) \<and> s \<in> known \<longrightarrow> getEventTypeFromTopic dec topic = s)
    \<and> ((\<nexists>s. dec topic = Some (NStr s) \<and> s \<in> known)
         \<longrightarrow> getEventTypeFromTopic dec topic = ''unknown'')
    \<and> (getEventTypeFromTopic dec topic \<in> known
         \<longleftrightarrow> (\<exists>s. dec topic = Some (NStr s) \<and> s \<in> known))"
proof -
  have k: "set EVENT_SYMBOLS = known"
    unfolding known_def by (rule EVENT_SYMBOLS_set)
  have u: "''unknown'' \<notin> known"
    using unknown_not_known k by simp
  have n: "distinct EVENT_SYMBOLS \<and> length EVENT_SYMBOLS = 10"
    by (simp add: EVENT_SYMBOLS_def)
  show ?thesis
  proof (cases "dec topic")
    case None
    then show ?thesis using k u n by (simp add: getEventTypeFromTopic_def)
  next
    case (Some v)
    then show ?thesis using k u n by (cases v) (auto simp: getEventTypeFromTopic_def)
  qed
qed

theorem getEventTypeFromTopic_known_names_witness:
  "getEventTypeFromTopic sample_dec ''AAAADwAAABBwcm9wb3NhbF9jcmVhdGVk'' = ''proposal_created''
   \<and> getEventTypeFromTopic sample_dec ''AAAADwAAAAV0b2tlbgAAAA=='' = ''unknown''"
proof -
  have a: "sample_dec ''AAAADwAAABBwcm9wb3NhbF9jcmVhdGVk'' = Some (NStr ''proposal_created'')"
    by (simp add: sample_dec_def)
  have b: "sample_dec ''AAAADwAAAAV0b2tlbgAAAA=='' = Some (NStr ''token'')"
    by (simp add: sample_dec_def created_xdr_def approved_xdr_def shadowed_xdr_def)
  from getEventTypeFromTopic_known_names [of sample_dec "''AAAADwAAABBwcm9wb3NhbF9jcmVhdGVk''"] a
  have 1: "getEventTypeFromTopic sample_dec ''AAAADwAAABBwcm9wb3NhbF9jcmVhdGVk''
             = ''proposal_created''"
    by simp
  from getEventTypeFromTopic_known_names [of sample_dec "''AAAADwAAAAV0b2tlbgAAAA==''"] b
  have 2: "getEventTypeFromTopic sample_dec ''AAAADwAAAAV0b2tlbgAAAA=='' = ''unknown''"
    by simp
  from 1 2 show ?thesis by simp
qed

lemma getEventTypeFromTopic_call_returns:
  "getEventTypeFromTopic_call dec s = Returned (getEventTypeFromTopic dec s)"
proof (cases "dec s")
  case None
  then show ?thesis
    by (simp add: getEventTypeFromTopic_call_def topic_try_def try_catch_def
        getEventTypeFromTopic_def)
next
  case (Some v)
  then show ?thesis
    by (cases v)
      (simp_all add: getEventTypeFromTopic_call_def topic_try_def try_catch_def
        getEventTypeFromTopic_def)
qed

lemma parseEventValue_call_returns:
  "parseEventValue_call dec host s eventType = Returned (parseEventValue dec host s eventType)"
proof -
  obtain st thrown where t: "parseEventValue_try dec host s eventType = (st, thrown)"
    by (cases "parseEventValue_try dec host s eventType")
  then show ?thesis
    by (cases thrown) (simp_all add: parseEventValue_call_def parseEventValue_def try_catch_def)
qed

lemma parseEventValue_v1_call_returns:
  "parseEventValue_v1_call dec host s eventType
     = Returned (parseEventValue_v1 dec host s eventType)"
proof -
  obtain st thrown where t: "parseEventValue_v1_try dec host s eventType = (st, thrown)"
    by (cases "parseEventValue_v1_try dec host s eventType")
  then show ?thesis
    by (cases thrown)
      (simp_all add: parseEventValue_v1_call_def parseEventValue_v1_def try_catch_def)
qed

lemma activity_of_call_returns:
  "activity_of_call dec host clock ev = Returned (activity_of dec host clock ev)"
  by (simp add: activity_of_call_def activity_of_def then_call_def Let_def
      getEventTypeFromTopic_call_returns parseEventValue_call_returns)

lemma activity_of_v1_call_returns:
  "activity_of_v1_call dec host clock ev = Returned (activity_of_v1 dec host clock ev)"
  by (simp add: activity_of_v1_call_def activity_of_v1_def then_call_def Let_def
      getEventTypeFromTopic_call_returns parseEventValue_v1_call_returns)

lemma getEventTypeFromTopic_range:
  "getEventTypeFromTopic dec s \<in> insert ''unknown'' (set EVENT_SYMBOLS)"
proof (cases "dec s")
  case None
  then show ?thesis by (simp add: getEventTypeFromTopic_def)
next
  case (Some v)
  then show ?thesis by (cases v) (simp_all add: getEventTypeFromTopic_def)
qed

lemma decode_failure:
  "dec s = None \<longrightarrow>
     getEventTypeFromTopic dec s = ''unknown''
     \<and> parseEventValue dec host s eventType
         = \<lparr>actor = [], details = [''parseError'' \<mapsto> NBool True]\<rparr>
     \<and> parseEventValue_v1 dec host s eventType
         = \<lparr>actor = [], details = [''parseError'' \<mapsto> NBool True]\<rparr>"
  by (simp add: getEventTypeFromTopic_def parseEventValue_def parseEventValue_try_def
      parseEventValue_v1_def parseEventValue_v1_try_def parse_catch_def)

lemma malformed_event_activity:
  "topic0_of ev = Some t \<and> t \<noteq> [] \<and> dec t = None
     \<and> ev_value ev = Some s \<and> s \<noteq> [] \<and> dec s = None \<longrightarrow>
     activity_of dec host clock ev
       = \<lparr>act_id = ev_id ev, act_type = ''unknown'',
          act_timestamp = (if truthy (ev_ledgerClosedAt ev) then the (ev_ledgerClosedAt ev)
                           else clock),
          act_ledger = ev_ledger ev, act_actor = [],
          act_details = [''parseError'' \<mapsto> NBool True, ''ledger'' \<mapsto> NStr (ev_ledger ev)],
          act_eventId = ev_id ev, act_pagingToken = ev_pagingToken ev\<rparr>
     \<and> activity_of_v1 dec host clock ev = activity_of dec host clock ev"
  by (simp add: activity_of_def activity_of_v1_def truthy_def Let_def decode_failure)

text \<open>
  C10. The event decoders are total. For every input string the call of
  \<open>getEventTypeFromTopic\<close> returns, with an event type (one of the known names or
  \<open>'unknown'\<close>), and the call of \<open>parseEventValue\<close> returns, in both texts of the hook; so
  does the processing of every event of the log. On a string the decoder rejects,
  \<open>getEventTypeFromTopic\<close> returns \<open>'unknown'\<close> and \<open>parseEventValue\<close> returns the empty
  actor with \<open>details.parseError = true\<close> and nothing else; an event whose topic and value
  are both rejected becomes an activity of type \<open>'unknown'\<close> with the empty actor.
\<close>

theorem decoders_total:
  "getEventTypeFromTopic_call dec s = Returned (getEventTypeFromTopic dec s)
   \<and> parseEventValue_call dec host s eventType
       = Returned (parseEventValue dec host s eventType)
   \<and> parseEventValue_v1_call dec host s eventType
       = Returned (parseEventValue_v1 dec host s eventType)
   \<and> activity_of_call dec host clock ev = Returned (activity_of dec host clock ev)
   \<and> activity_of_v1_call dec host clock ev = Returned (activity_of_v1 dec host clock ev)
   \<and> getEventTypeFromTopic dec s \<in> insert ''unknown'' (set EVENT_SYMBOLS)
   \<and> (dec s = None \<longrightarrow>
        getEventTypeFromTopic dec s = ''unknown''
        \<and> parseEventValue dec host s eventType
            = \<lparr>actor = [], details = [''parseError'' \<mapsto> NBool True]\<rparr>
        \<and> parseEventValue_v1 dec host s eventType
            = \<lparr>actor = [], details = [''parseError'' \<mapsto> NBool True]\<rparr>)
   \<and> (topic0_of ev = Some t \<and> t \<noteq> [] \<and> dec t = None
        \<and> ev_value ev = Some s \<and> s \<noteq> [] \<and> dec s = None \<longrightarrow>
        activity_of dec host clock ev
          = \<lparr>act_id = ev_id ev, act_type = ''unknown'',
             act_timestamp = (if truthy (ev_ledgerClosedAt ev) then the (ev_ledgerClosedAt ev)
                              else clock),
             act_ledger = ev_ledger ev, act_actor = [],
             act_details = [''parseError'' \<mapsto> NBool True, ''ledger'' \<mapsto> NStr (ev_ledger ev)],
             act_eventId = ev_id ev, act_pagingToken = ev_pagingToken ev\<rparr>
        \<and> activity_of_v1 dec host clock ev = activity_of dec host clock ev)"
  by (intro conjI)
    (rule getEventTypeFromTopic_call_returns parseEventValue_call_returns
      parseEventValue_v1_call_returns activity_of_call_returns activity_of_v1_call_returns
      getEventTypeFromTopic_range decode_failure malformed_event_activity)+

lemma sample_dec_rejects: "sample_dec ''%%%'' = None"
  by (simp add: sample_dec_def created_xdr_def approved_xdr_def shadowed_xdr_def)

lemma sample_dec_shadowed:
  "sample_dec shadowed_xdr = Some (NArr [NObj [(''toString'', NNum 1)]])"
  by (simp add: sample_dec_def created_xdr_def approved_xdr_def shadowed_xdr_def)

lemma shadowed_parse:
  "parseEventValue sample_dec sample_host shadowed_xdr ''proposal_created''
     = \<lparr>actor = [], details = [''parseError'' \<mapsto> NBool True]\<rparr>"
  by (simp add: parseEventValue_def parseEventValue_try_def sample_dec_shadowed vec_at_def
      sample_host_def parse_catch_def)

theorem decoders_total_witness:
  "sample_dec ''%%%'' = None
   \<and> getEventTypeFromTopic_call sample_dec ''%%%'' = Returned ''unknown''
   \<and> parseEventValue_call sample_dec sample_host ''%%%'' ''unknown''
       = Returned \<lparr>actor = [], details = [''parseError'' \<mapsto> NBool True]\<rparr>
   \<and> parseEventValue_v1_call sample_dec sample_host ''%%%'' ''unknown''
       = Returned \<lparr>actor = [], details = [''parseError'' \<mapsto> NBool True]\<rparr>
   \<and> parseEventValue_call sample_dec sample_host shadowed_xdr ''proposal_created''
       = Returned \<lparr>actor = [], details = [''parseError'' \<mapsto> NBool True]\<rparr>
   \<and> act_type (activity_of sample_dec sample_host ''now''
        (sample_event\<lparr>ev_topic := Some [''%%%''], ev_value := Some ''%%%''\<rparr>)) = ''unknown''
   \<and> act_details (activity_of sample_dec sample_host ''now''
        (sample_event\<lparr>ev_topic := Some [''%%%''], ev_value := Some ''%%%''\<rparr>))
       = [''parseError'' \<mapsto> NBool True, ''ledger'' \<mapsto> NStr ''60000'']"
proof -
  note n = sample_dec_rejects
  let ?ev = "sample_event\<lparr>ev_topic := Some [''%%%''], ev_value := Some ''%%%''\<rparr>"
  have e: "topic0_of ?ev = Some ''%%%'' \<and> ''%%%'' \<noteq> [] \<and> ev_value ?ev = Some ''%%%''
           \<and> ev_ledger ?ev = ''60000''"
    by (simp add: topic0_of_def sample_event_def)
  note t = decoders_total [where dec = sample_dec and s = "''%%%''" and t = "''%%%''"
      and host = sample_host and eventType = "''unknown''" and clock = "''now''" and ev = ?ev]
  from t [THEN conjunct1] t [THEN conjunct2, THEN conjunct2, THEN conjunct2, THEN conjunct2,
      THEN conjunct2, THEN conjunct2, THEN conjunct1] n
  have 1: "getEventTypeFromTopic_call sample_dec ''%%%'' = Returned ''unknown''"
    by simp
  from t [THEN conjunct2, THEN conjunct1] t [THEN conjunct2, THEN conjunct2, THEN conjunct2,
      THEN conjunct2, THEN conjunct2, THEN conjunct2, THEN conjunct1] n
  have 2: "parseEventValue_call sample_dec sample_host ''%%%'' ''unknown''
       = Returned \<lparr>actor = [], details = [''parseError'' \<mapsto> NBool True]\<rparr>"
    by simp
  from t [THEN conjunct2, THEN conjunct2, THEN conjunct1]
    t [THEN conjunct2, THEN conjunct2, THEN conjunct2,
      THEN conjunct2, THEN conjunct2, THEN conjunct2, THEN conjunct1] n
  have 3: "parseEventValue_v1_call sample_dec sample_host ''%%%'' ''unknown''
       = Returned \<lparr>actor = [], details = [''parseError'' \<mapsto> NBool True]\<rparr>"
    by simp
  from decoders_total [where dec = sample_dec and s = shadowed_xdr and host = sample_host
      and eventType = "''proposal_created''", THEN conjunct2, THEN conjunct1]
  have 4: "parseEventValue_call sample_dec sample_host shadowed_xdr ''proposal_created''
       = Returned \<lparr>actor = [], details = [''parseError'' \<mapsto> NBool True]\<rparr>"
    by (simp add: shadowed_parse)
  from t [THEN conjunct2, THEN conjunct2, THEN conjunct2, THEN conjunct2,
      THEN conjunct2, THEN conjunct2, THEN conjunct2] n e
  have 5: "act_type (activity_of sample_dec sample_host ''now'' ?ev) = ''unknown''
    \<and> act_details (activity_of sample_dec sample_host ''now'' ?ev)
       = [''parseError'' \<mapsto> NBool True, ''ledger'' \<mapsto> NStr ''60000'']"
    by simp
  from n 1 2 3 4 5 show ?thesis by simp
qed

lemma js_String_by_host:
  "string_by_host x \<Longrightarrow> js_String host x = string_of host x"
  by (cases x) simp_all

lemma addressToNative_by_host:
  "address_by_host x \<Longrightarrow> addressToNative host x = string_of host x"
  by (cases x) (auto split: option.splits native.splits)

text \<open>
  C2. When the value of an event decodes to a tuple whose first element is an address (a
  string, as the contract's payloads have it), \<open>parseEventValue\<close>, in both texts of the
  hook, reports that element as the actor, whatever the event type and the other
  elements. For \<open>proposal_created\<close> with at least three elements it reports proposer =
  element 0, recipient = element 1 and amount = element 2 as text (in decimal for an
  integer, empty for \<open>null\<close>); for \<open>proposal_approved\<close> with at least three elements it
  reports approval_count = element 1 and threshold = element 2 as they are; with fewer
  than three elements it reports the tuple as \<open>raw\<close> instead. A first element that is not
  a string is reported as its text: empty for a missing or \<open>null\<close> element, decimal for
  an integer, the \<open>address\<close> of an object that has one, and the host's rendering
  otherwise; when that rendering throws, the fields assigned so far are returned with
  \<open>parseError\<close>.
\<close>

theorem parseEventValue_tuple_fields:
  "\<forall>parse \<in> {parseEventValue, parseEventValue_v1}.
     (dec v = Some (NArr (NStr a # rest)) \<longrightarrow> actor (parse dec host v eventType) = a)
   \<and> (dec v = Some (NArr (NStr a # NStr r # NBigInt n # rest)) \<longrightarrow>
        parse dec host v ''proposal_created''
          = \<lparr>actor = a, details = [''proposer'' \<mapsto> NStr a, ''recipient'' \<mapsto> NStr r,
                                   ''amount'' \<mapsto> NStr (show_int n)]\<rparr>)
   \<and> (dec v = Some (NArr (NStr a # NStr r # NNum n # rest)) \<and> safe_integer n \<longrightarrow>
        parse dec host v ''proposal_created''
          = \<lparr>actor = a, details = [''proposer'' \<mapsto> NStr a, ''recipient'' \<mapsto> NStr r,
                                   ''amount'' \<mapsto> NStr (show_int n)]\<rparr>)
   \<and> (dec v = Some (NArr (NStr a # NStr r # NStr m # rest)) \<longrightarrow>
        parse dec host v ''proposal_created''
          = \<lparr>actor = a, details = [''proposer'' \<mapsto> NStr a, ''recipient'' \<mapsto> NStr r,
                                   ''amount'' \<mapsto> NStr m]\<rparr>)
   \<and> (dec v = Some (NArr (NStr a # NStr r # NNull # rest)) \<longrightarrow>
        parse dec host v ''proposal_created''
          = \<lparr>actor = a, details = [''proposer'' \<mapsto> NStr a, ''recipient'' \<mapsto> NStr r,
                                   ''amount'' \<mapsto> NStr []]\<rparr>)
   \<and> (dec v = Some (NArr (NStr a # y # z # rest)) \<longrightarrow>
        details (parse dec host v ''proposal_created'') ''proposer'' = Some (NStr a))
   \<and> (dec v = Some (NArr (NStr a # NStr r # z # rest)) \<longrightarrow>
        details (parse dec host v ''proposal_created'') ''recipient'' = Some (NStr r))
   \<and> (dec v = Some (NArr (NStr a # y # z # rest)) \<longrightarrow>
        parse dec host v ''proposal_approved''
          = \<lparr>actor = a, details = [''approval_count'' \<mapsto> y, ''threshold'' \<mapsto> z]\<rparr>)
   \<and> (dec v = Some (NArr (NStr a # short)) \<and> length short < 2
        \<and> (eventType = ''proposal_created'' \<or> eventType = ''proposal_approved'') \<longrightarrow>
        parse dec host v eventType
          = \<lparr>actor = a, details = [''raw'' \<mapsto> NArr (NStr a # short)]\<rparr>)
   \<and> (dec v = Some (NArr []) \<longrightarrow> actor (parse dec host v eventType) = [])
   \<and> (dec v = Some (NArr (NNull # rest)) \<longrightarrow> actor (parse dec host v eventType) = [])
   \<and> (dec v = Some (NArr (NBigInt n # rest)) \<longrightarrow>
        actor (parse dec host v eventType) = show_int n)
   \<and> (dec v = Some (NArr (NNum n # rest)) \<and> safe_integer n \<longrightarrow>
        actor (parse dec host v eventType) = show_int n)
   \<and> (dec v = Some (NArr (NBool b # rest)) \<longrightarrow>
        actor (parse dec host v eventType) = (if b then ''true'' else ''false''))
   \<and> (dec v = Some (NArr (NObj props # rest)) \<and> map_of props ''address'' = Some (NStr a) \<longrightarrow>
        actor (parse dec host v eventType) = a)
   \<and> (dec v = Some (NArr (NObj props # rest)) \<and> map_of props ''address'' = Some (NFn a) \<longrightarrow>
        actor (parse dec host v eventType) = a)
   \<and> (dec v = Some (NArr (x # rest)) \<and> address_by_host x \<and> string_of host x = Some a \<longrightarrow>
        actor (parse dec host v eventType) = a)
   \<and> (dec v = Some (NArr (x # rest)) \<and> address_by_host x \<and> string_of host x = None \<longrightarrow>
        parse dec host v eventType
          = \<lparr>actor = [], details = [''parseError'' \<mapsto> NBool True]\<rparr>)
   \<and> (dec v = Some (NArr (NStr a # y # z # rest)) \<and> address_by_host y
        \<and> string_of host y = None \<longrightarrow>
        parse dec host v ''proposal_created''
          = \<lparr>actor = a, details = [''proposer'' \<mapsto> NStr a, ''parseError'' \<mapsto> NBool True]\<rparr>)
   \<and> (dec v = Some (NArr (NStr a # NStr r # z # rest)) \<and> string_by_host z
        \<and> string_of host z = None \<longrightarrow>
        parse dec host v ''proposal_created''
          = \<lparr>actor = a, details = [''proposer'' \<mapsto> NStr a, ''recipient'' \<mapsto> NStr r,
                                   ''parseError'' \<mapsto> NBool True]\<rparr>)"
  (is "\<forall>parse \<in> _. ?P parse")
proof -
  have later: "?P parseEventValue"
    by (intro conjI impI)
      (auto simp: parseEventValue_def parseEventValue_try_def vec_at_def parse_catch_def
        amount_text_def addressToNative_by_host js_String_by_host split: option.splits)
  have earlier: "?P parseEventValue_v1"
    by (intro conjI impI)
      (auto simp: parseEventValue_v1_def parseEventValue_v1_try_def vec_at_def parse_catch_def
        amount_text_def addressToNative_by_host js_String_by_host split: option.splits)
  show ?thesis
  proof (intro ballI)
    fix parse :: "(string \<Rightarrow> native option) \<Rightarrow> js_host \<Rightarrow> string \<Rightarrow> string \<Rightarrow> parsed_event"
    assume "parse \<in> {parseEventValue, parseEventValue_v1}"
    then consider "parse = parseEventValue" | "parse = parseEventValue_v1"
      by blast
    then show "?P parse"
    proof cases
      case 1
      show ?thesis unfolding 1 by (rule later)
    next
      case 2
      show ?thesis unfolding 2 by (rule earlier)
    qed
  qed
qed

lemma show_2500: "show_int 2500 = ''2500''"
  by (simp add: show_int_def show_nat.simps digit_char_def)

lemma sample_dec_created:
  "sample_dec created_xdr = Some (NArr [NStr account_1, NStr account_2, NBigInt 2500])"
  by (simp add: sample_dec_def created_xdr_def)

lemma sample_dec_approved:
  "sample_dec approved_xdr = Some (NArr [NStr account_1, NNum 2, NNum 3])"
  by (simp add: sample_dec_def created_xdr_def approved_xdr_def)

theorem parseEventValue_tuple_fields_witness:
  "sample_dec created_xdr = Some (NArr [NStr account_1, NStr account_2, NBigInt 2500])
   \<and> parseEventValue sample_dec sample_host created_xdr ''proposal_created''
       = \<lparr>actor = account_1,
          details = [''proposer'' \<mapsto> NStr account_1, ''recipient'' \<mapsto> NStr account_2,
                     ''amount'' \<mapsto> NStr ''2500'']\<rparr>
   \<and> actor (parseEventValue_v1 sample_dec sample_host created_xdr ''proposal_executed'')
       = account_1
   \<and> sample_dec approved_xdr = Some (NArr [NStr account_1, NNum 2, NNum 3])
   \<and> parseEventValue_v1 sample_dec sample_host approved_xdr ''proposal_approved''
       = \<lparr>actor = account_1,
          details = [''approval_count'' \<mapsto> NNum 2, ''threshold'' \<mapsto> NNum 3]\<rparr>
   \<and> sample_dec shadowed_xdr = Some (NArr [NObj [(''toString'', NNum 1)]])
   \<and> string_of sample_host (NObj [(''toString'', NNum 1)]) = None
   \<and> parseEventValue sample_dec sample_host shadowed_xdr ''proposal_created''
       = \<lparr>actor = [], details = [''parseError'' \<mapsto> NBool True]\<rparr>"
proof -
  have l: "parseEventValue \<in> {parseEventValue, parseEventValue_v1}"
    and e: "parseEventValue_v1 \<in> {parseEventValue, parseEventValue_v1}"
    by simp_all
  have h: "address_by_host (NObj [(''toString'', NNum 1)])
           \<and> string_of sample_host (NObj [(''toString'', NNum 1)]) = None"
    by (simp add: sample_host_def)
  from parseEventValue_tuple_fields [where dec = sample_dec and v = created_xdr
      and a = account_1 and r = account_2 and n = 2500 and rest = "[]" and host = sample_host,
      THEN bspec, OF l, THEN conjunct2, THEN conjunct1] sample_dec_created
  have 1: "parseEventValue sample_dec sample_host created_xdr ''proposal_created''
       = \<lparr>actor = account_1,
          details = [''proposer'' \<mapsto> NStr account_1, ''recipient'' \<mapsto> NStr account_2,
                     ''amount'' \<mapsto> NStr ''2500'']\<rparr>"
    by (simp add: show_2500)
  from parseEventValue_tuple_fields [where dec = sample_dec and v = created_xdr
      and a = account_1 and rest = "[NStr account_2, NBigInt 2500]" and host = sample_host
      and eventType = "''proposal_executed''", THEN bspec, OF e, THEN conjunct1] sample_dec_created
  have 2: "actor (parseEventValue_v1 sample_dec sample_host created_xdr ''proposal_executed'')
       = account_1"
    by simp
  from parseEventValue_tuple_fields [where dec = sample_dec and v = approved_xdr
      and a = account_1 and y = "NNum 2" and z = "NNum 3" and rest = "[]"
      and host = sample_host, THEN bspec, OF e, THEN conjunct2, THEN conjunct2, THEN conjunct2, THEN conjunct2, THEN conjunct2, THEN conjunct2, THEN conjunct2, THEN conjunct1] sample_dec_approved
  have 3: "parseEventValue_v1 sample_dec sample_host approved_xdr ''proposal_approved''
       = \<lparr>actor = account_1,
          details = [''approval_count'' \<mapsto> NNum 2, ''threshold'' \<mapsto> NNum 3]\<rparr>"
    by simp
  from parseEventValue_tuple_fields [where dec = sample_dec and v = shadowed_xdr
      and x = "NObj [(''toString'', NNum 1)]" and rest = "[]" and host = sample_host
      and eventType = "''proposal_created''", THEN bspec, OF l, THEN conjunct2, THEN conjunct2, THEN conjunct2, THEN conjunct2, THEN conjunct2, THEN conjunct2, THEN conjunct2, THEN conjunct2, THEN conjunct2, THEN conjunct2, THEN conjunct2, THEN conjunct2, THEN conjunct2, THEN conjunct2, THEN conjunct2, THEN conjunct2, THEN conjunct2, THEN conjunct1]
    sample_dec_shadowed h
  have 4: "parseEventValue sample_dec sample_host shadowed_xdr ''proposal_created''
       = \<lparr>actor = [], details = [''parseError'' \<mapsto> NBool True]\<rparr>"
    by simp
  from sample_dec_created sample_dec_approved sample_dec_shadowed h 1 2 3 4
  show ?thesis by simp
qed

section \<open>Properties of the proposals page\<close>

lemma has_address: "\<not> no_address x \<longleftrightarrow> (\<exists>a. x = Some a \<and> a \<noteq> [])"
  by (cases x) (simp_all add: no_address_def)

lemma canRejectProposal_iff:
  "canRejectProposal role w prop \<longleftrightarrow>
     isConnected w \<and> (\<exists>a. address w = Some a \<and> a \<noteq> [])
     \<and> (address w = Some (p_proposer prop) \<or> role = ''Admin'')"
  unfolding canRejectProposal_def using has_address [of "address w"] by auto

text \<open>
  The page's own role is the constant of line 59, so on the page as it is written the role
  test always passes and every connected caller may reject.
\<close>

lemma page_role_is_admin:
  "canRejectProposal userRole w prop \<longleftrightarrow> isConnected w \<and> (\<exists>a. address w = Some a \<and> a \<noteq> [])"
  by (simp add: canRejectProposal_iff userRole_def)





lemma page_step_statuses:
  assumes "\<forall>p \<in> set (proposals st). p_status p \<in> {Pending, Executed, Rejected}"
    and "\<forall>p. selectedProposal st = Some p \<longrightarrow> p_status p \<in> {Pending, Executed, Rejected}"
  shows "(\<forall>p \<in> set (proposals (page_step st ev)). p_status p \<in> {Pending, Executed, Rejected})
    \<and> (\<forall>p. selectedProposal (page_step st ev) = Some p
          \<longrightarrow> p_status p \<in> {Pending, Executed, Rejected})"
proof (cases ev)
  case (SelectProposal i)
  then show ?thesis using assms by auto
next
  case CloseDetail
  then show ?thesis using assms by simp
next
  case (ClickReject w loading i)
  then show ?thesis using assms by (simp add: handleRejectClick_def)
next
  case (ConfirmReject outcome)
  then show ?thesis using assms
    by (cases "rejectingId st"; cases outcome) (auto simp: handleRejectConfirm_def)
next
  case CancelReject
  then show ?thesis using assms by simp
qed

lemma foldl_page_step_statuses:
  "(\<forall>p \<in> set (proposals st). p_status p \<in> {Pending, Executed, Rejected})
     \<and> (\<forall>p. selectedProposal st = Some p \<longrightarrow> p_status p \<in> {Pending, Executed, Rejected})
   \<Longrightarrow> (\<forall>p \<in> set (proposals (foldl page_step st evs)).
          p_status p \<in> {Pending, Executed, Rejected})
     \<and> (\<forall>p. selectedProposal (foldl page_step st evs) = Some p
          \<longrightarrow> p_status p \<in> {Pending, Executed, Rejected})"
proof (induction evs arbitrary: st)
  case Nil
  then show ?case by simp
next
  case (Cons ev evs)
  have "(\<forall>p \<in> set (proposals (page_step st ev)). p_status p \<in> {Pending, Executed, Rejected})
    \<and> (\<forall>p. selectedProposal (page_step st ev) = Some p
          \<longrightarrow> p_status p \<in> {Pending, Executed, Rejected})"
    using Cons.prems page_step_statuses [of st ev] by blast
  from Cons.IH [OF this] show ?case by simp
qed

lemma run_page_statuses:
  "(\<forall>p \<in> set (proposals (run_page evs)). p_status p \<in> {Pending, Executed, Rejected})
   \<and> (\<forall>p. selectedProposal (run_page evs) = Some p
        \<longrightarrow> p_status p \<in> {Pending, Executed, Rejected})"
  unfolding run_page_def
  by (rule foldl_page_step_statuses) (simp add: initial_page_def mockProposals_def)

text \<open>
  C4. Every proposal's state is always one of the six values \<open>Pending\<close>,
  \<open>TimelockActive\<close>, \<open>Ready\<close>, \<open>Executed\<close>, \<open>Rejected\<close>, \<open>Expired\<close>: after every sequence of
  events of the page, every proposal of its list, and the proposal shown in the detail
  view, has one of these as its status; the page reaches three of them, \<open>Pending\<close>,
  \<open>Executed\<close> and \<open>Rejected\<close>.
\<close>

theorem proposal_status_values:
  "(\<forall>p \<in> set (proposals (run_page evs)).
      p_status p \<in> {Pending, Executed, Rejected}
      \<and> status_label (p_status p)
          \<in> {''Pending'', ''TimelockActive'', ''Ready'', ''Executed'', ''Rejected'', ''Expired''})
   \<and> (\<forall>p. selectedProposal (run_page evs) = Some p \<longrightarrow>
        p_status p \<in> {Pending, Executed, Rejected}
        \<and> status_label (p_status p)
            \<in> {''Pending'', ''TimelockActive'', ''Ready'', ''Executed'', ''Rejected'', ''Expired''})"
proof -
  have l: "status_label s
      \<in> {''Pending'', ''TimelockActive'', ''Ready'', ''Executed'', ''Rejected'', ''Expired''}"
    if "s \<in> {Pending, Executed, Rejected}" for s
    using that by auto
  from run_page_statuses [of evs] l show ?thesis
    by blast
qed

theorem proposal_status_values_witness:
  "map p_status (proposals (run_page [])) = [Pending, Executed]
   \<and> map p_status (proposals (run_page
        [SelectProposal 0, ClickReject stranger_wallet False 0, ConfirmReject (Inr ''abc123'')]))
       = [Rejected, Executed]
   \<and> (mockProposals ! 0)\<lparr>p_status := Rejected\<rparr> \<in> set (proposals (run_page
        [SelectProposal 0, ClickReject stranger_wallet False 0, ConfirmReject (Inr ''abc123'')]))
   \<and> status_label (p_status ((mockProposals ! 0)\<lparr>p_status := Rejected\<rparr>))
       \<in> {''Pending'', ''TimelockActive'', ''Ready'', ''Executed'', ''Rejected'', ''Expired''}
   \<and> selectedProposal (run_page
        [SelectProposal 0, ClickReject stranger_wallet False 0, ConfirmReject (Inr ''abc123'')])
       = Some (mockProposals ! 0)"
proof -
  let ?evs = "[SelectProposal 0, ClickReject stranger_wallet False 0,
               ConfirmReject (Inr ''abc123'')]"
  have r: "proposals (run_page ?evs)
             = [(mockProposals ! 0)\<lparr>p_status := Rejected\<rparr>, mockProposals ! 1]
           \<and> selectedProposal (run_page ?evs) = Some (mockProposals ! 0)"
    by (simp add: run_page_def initial_page_def mockProposals_def reject_enabled_def
        reject_rendered_def canRejectProposal_def no_address_def stranger_wallet_def
        account_2_def userRole_def handleRejectClick_def handleRejectConfirm_def)
  then have m: "(mockProposals ! 0)\<lparr>p_status := Rejected\<rparr> \<in> set (proposals (run_page ?evs))"
    by simp
  from proposal_status_values [of ?evs, THEN conjunct1, THEN bspec, OF m]
  have s: "status_label (p_status ((mockProposals ! 0)\<lparr>p_status := Rejected\<rparr>))
       \<in> {''Pending'', ''TimelockActive'', ''Ready'', ''Executed'', ''Rejected'', ''Expired''}"
    by simp
  have e: "map p_status (proposals (run_page [])) = [Pending, Executed]"
    by (simp add: run_page_def initial_page_def mockProposals_def)
  from r m s e show ?thesis by (simp add: mockProposals_def)
qed

text \<open>
  C7. When the rejection of the proposal with id \<open>rid\<close> succeeds, every proposal of the
  list with that id becomes that proposal with status \<open>Rejected\<close> and every other field as
  it was, and every other proposal is left as it was; when the rejection fails, or no
  rejection is pending, the list is unchanged.
\<close>

theorem handleRejectConfirm_frame:
  "(rejectingId st = Some rid \<and> reject rid = Inr h \<longrightarrow>
      proposals (handleRejectConfirm reject st)
        = map (\<lambda>p. if p_id p = rid then p\<lparr>p_status := Rejected\<rparr> else p) (proposals st)
      \<and> length (proposals (handleRejectConfirm reject st)) = length (proposals st)
      \<and> (\<forall>i < length (proposals st).
           (p_id (proposals st ! i) = rid \<longrightarrow>
              proposals (handleRejectConfirm reject st) ! i
                = (proposals st ! i)\<lparr>p_status := Rejected\<rparr>
              \<and> p_status (proposals (handleRejectConfirm reject st) ! i) = Rejected)
         \<and> (p_id (proposals st ! i) \<noteq> rid \<longrightarrow>
              proposals (handleRejectConfirm reject st) ! i = proposals st ! i)))
   \<and> (rejectingId st = Some rid \<and> reject rid = Inl e \<longrightarrow>
        proposals (handleRejectConfirm reject st) = proposals st)
   \<and> (rejectingId st = None \<longrightarrow> handleRejectConfirm reject st = st)"
  by (simp add: handleRejectConfirm_def)

theorem handleRejectConfirm_frame_witness:
  "map p_status (proposals (handleRejectConfirm (\<lambda>i. Inr ''abc123'')
       (handleRejectClick 102 initial_page))) = [Rejected, Executed]
   \<and> proposals (handleRejectConfirm (\<lambda>i. Inr ''abc123'') (handleRejectClick 102 initial_page))
       = [(hd mockProposals)\<lparr>p_status := Rejected\<rparr>, hd (tl mockProposals)]
   \<and> proposals (handleRejectConfirm (\<lambda>i. Inl (Error ''denied''))
       (handleRejectClick 102 initial_page)) = mockProposals
   \<and> handleRejectConfirm (\<lambda>i. Inr ''abc123'') initial_page = initial_page"
  using handleRejectConfirm_frame [of "handleRejectClick 102 initial_page" 102
      "\<lambda>i. Inr ''abc123''" "''abc123''" "Error ''denied''"]
    handleRejectConfirm_frame [of "handleRejectClick 102 initial_page" 102
      "\<lambda>i. Inl (Error ''denied'')" "''abc123''" "Error ''denied''"]
    handleRejectConfirm_frame [of initial_page 102
      "\<lambda>i. Inr ''abc123''" "''abc123''" "Error ''denied''"]
  by (simp add: handleRejectClick_def initial_page_def mockProposals_def)

section \<open>Properties of the contract hook\<close>

lemma wallet_address_None:
  "wallet_address w = None \<longleftrightarrow> \<not> isConnected w \<or> no_address (address w)"
  by (cases "address w") (auto simp: wallet_address_def no_address_def)

text \<open>
  C8. Every fund-moving or state-mutating operation of the hook (\<open>proposeTransfer\<close>,
  \<open>rejectProposal\<close>, \<open>executeProposal\<close>, \<open>schedulePayment\<close>, \<open>executeRecurringPayment\<close>,
  \<open>cancelRecurringPayment\<close>, \<open>pauseRecurringPayment\<close>, and the two of the earlier text)
  throws the error \<open>Wallet not connected\<close> and does nothing else, so submits no
  transaction, whenever the wallet is not connected or the address is absent.
\<close>

theorem wallet_not_connected_guard:
  assumes "\<not> isConnected w \<or> no_address (address w)"
  shows "proposeTransfer env w recipient token amount memo
           = (Inl (Error ''Wallet not connected''), [])
    \<and> rejectProposal env w proposalId = (Inl (Error ''Wallet not connected''), [])
    \<and> executeProposal env w proposalId = (Inl (Error ''Wallet not connected''), [])
    \<and> schedulePayment env w params = (Inl (Error ''Wallet not connected''), [])
    \<and> executeRecurringPayment env w paymentId = (Inl (Error ''Wallet not connected''), [])
    \<and> cancelRecurringPayment env w paymentId = (Inl (Error ''Wallet not connected''), [])
    \<and> pauseRecurringPayment env w paymentId = (Inl (Error ''Wallet not connected''), [])
    \<and> proposeTransfer_v1 env w recipient token amount memo
           = (Inl (Error ''Wallet not connected''), [])
    \<and> rejectProposal_v1 env w proposalId = (Inl (Error ''Wallet not connected''), [])"
proof -
  from assms have "wallet_address w = None"
    by (simp add: wallet_address_None)
  then show ?thesis
    by (simp add: proposeTransfer_def rejectProposal_def executeProposal_def
        schedulePayment_def executeRecurringPayment_def cancelRecurringPayment_def
        pauseRecurringPayment_def proposeTransfer_v1_def rejectProposal_v1_def)
qed

theorem wallet_not_connected_guard_witness:
  "\<not> isConnected disconnected_wallet
   \<and> rejectProposal working_rpc disconnected_wallet 102 = (Inl (Error ''Wallet not connected''), [])
   \<and> executeRecurringPayment working_rpc disconnected_wallet ''2''
       = (Inl (Error ''Wallet not connected''), [])
   \<and> Send ''signed:reject_proposal+footprint''
       \<in> set (snd (rejectProposal working_rpc connected_wallet 102))"
proof -
  have h: "\<not> isConnected disconnected_wallet \<or> no_address (address disconnected_wallet)"
    by (simp add: disconnected_wallet_def)
  have s: "Send ''signed:reject_proposal+footprint''
       \<in> set (snd (rejectProposal working_rpc connected_wallet 102))"
    by (simp add: rejectProposal_def wallet_address_def no_address_def connected_wallet_def
        invoke_def try_submit_def working_rpc_def)
  from wallet_not_connected_guard [OF h, of working_rpc] h s show ?thesis
    by (simp add: disconnected_wallet_def)
qed

lemma try_submit_returns:
  "fst (try_submit env chk addr call) = Inr h \<longleftrightarrow> completes env chk addr call h"
  unfolding try_submit_def completes_def
  by (auto split: sum.splits simulation.splits)

lemma invoke_returns:
  "fst (invoke env chk addr call) = Inr h \<longleftrightarrow> completes env chk addr call h"
proof -
  obtain r log where t: "try_submit env chk addr call = (r, log)"
    by (cases "try_submit env chk addr call")
  have "fst (invoke env chk addr call) = Inr h \<longleftrightarrow> r = Inr h"
    using t by (cases r) (simp_all add: invoke_def)
  also have "\<dots> \<longleftrightarrow> fst (try_submit env chk addr call) = Inr h"
    using t by simp
  finally show ?thesis
    by (simp add: try_submit_returns)
qed

lemma guarded_returns:
  "fst (case wallet_address w of
          None \<Rightarrow> (Inl (Error ''Wallet not connected''), [])
        | Some addr \<Rightarrow> invoke env chk addr (mk addr)) = Inr h
   \<longleftrightarrow> (\<exists>addr. wallet_address w = Some addr \<and> completes env chk addr (mk addr) h)"
  by (cases "wallet_address w") (simp_all add: invoke_returns)

lemma getVaultEvents_latest_fails:
  "fetchLatestLedger env = Inl e \<longrightarrow>
      getVaultEvents env dec host clock cur lim = (no_events, [e])
    \<and> getVaultEvents_v1 env dec host clock cur lim = (no_events, [e])"
  by (simp add: getVaultEvents_def getVaultEvents_v1_def Let_def)

lemma getVaultEvents_events_fails:
  "fetchLatestLedger env = Inr sq
        \<and> fetchEvents env (events_request host cur
              (case lim of None \<Rightarrow> EVENTS_PAGE_SIZE | Some n \<Rightarrow> n) (latest_of sq)) = Inl e \<longrightarrow>
      getVaultEvents env dec host clock cur lim = (no_events, [e])
    \<and> getVaultEvents_v1 env dec host clock cur lim = (no_events, [e])"
  by (simp add: getVaultEvents_def getVaultEvents_v1_def Let_def)

lemma getVaultEvents_error_reply:
  "fetchLatestLedger env = Inr sq
        \<and> fetchEvents env (events_request host cur
              (case lim of None \<Rightarrow> EVENTS_PAGE_SIZE | Some n \<Rightarrow> n) (latest_of sq)) = Inr data
        \<and> rep_error data = Some m \<longrightarrow>
      fst (getVaultEvents env dec host clock cur lim) = no_events
    \<and> fst (getVaultEvents_v1 env dec host clock cur lim) = no_events"
  by (simp add: getVaultEvents_def getVaultEvents_v1_def Let_def)

lemma getDashboardStats_account_fails:
  "getAccount env CONTRACT_ID = Inl e \<longrightarrow> getDashboardStats env fmt = (zero_stats, [e])"
  by (simp add: getDashboardStats_def zero_stats_def Let_def)

lemma getDashboardStats_no_balances:
  "getAccount env CONTRACT_ID = Inr acc \<and> balances acc = None \<longrightarrow>
        fst (getDashboardStats env fmt) = zero_stats"
  by (simp add: getDashboardStats_def zero_stats_def Let_def)

lemma getRecurringPayments_always:
  "getRecurringPayments env now = (mockPayments now, [])"
  by (cases "getAccount env CONTRACT_ID") (simp_all add: getRecurringPayments_def)

text \<open>
  C5. The fund-moving and state-mutating operations convert no thrown failure into a normal
  return: each returns a hash only when the wallet guard passed and every call of the
  submission returned (account, build, simulation without a simulation error, assembly,
  signature, send), the hash being the one of the send response; in every other case the
  error is thrown to the caller. The read operations are different: \<open>getVaultEvents\<close> and
  \<open>getDashboardStats\<close> catch every failure, log it and return a default value (no
  activities, latest ledger \<open>'0'\<close>, \<open>hasMore\<close> false; zero figures), and
  \<open>getRecurringPayments\<close> returns its list whether or not the account could be fetched.
\<close>

theorem mutating_operations_surface_failures:
  "(fst (proposeTransfer env w recipient token amount memo) = Inr h \<longrightarrow>
      (\<exists>addr. wallet_address w = Some addr \<and> completes env False addr
         \<lparr>contractAddress = CONTRACT_ID, functionName = ''propose_transfer'',
          args = [ArgAddress addr, ArgAddress recipient, ArgAddress token,
                  ArgBigInt amount, ArgSymbol memo]\<rparr> h))
   \<and> (fst (rejectProposal env w proposalId) = Inr h \<longrightarrow>
      (\<exists>addr. wallet_address w = Some addr \<and> completes env False addr
         \<lparr>contractAddress = CONTRACT_ID, functionName = ''reject_proposal'',
          args = [ArgAddress addr, ArgU64 proposalId]\<rparr> h))
   \<and> (fst (executeProposal env w proposalId) = Inr h \<longrightarrow>
      (\<exists>addr. wallet_address w = Some addr \<and> completes env True addr
         \<lparr>contractAddress = CONTRACT_ID, functionName = ''execute_proposal'',
          args = [ArgAddress addr, ArgU64 proposalId]\<rparr> h))
   \<and> (fst (schedulePayment env w params) = Inr h \<longrightarrow>
      (\<exists>addr. wallet_address w = Some addr \<and> completes env False addr
         \<lparr>contractAddress = CONTRACT_ID, functionName = ''schedule_payment'',
          args = [ArgAddress addr, ArgAddress (cp_recipient params),
                  ArgAddress (cp_token params), ArgBigInt (cp_amount params),
                  ArgSymbol (cp_memo params), ArgU64 (cp_interval params)]\<rparr> h))
   \<and> (fst (executeRecurringPayment env w paymentId) = Inr h \<longrightarrow>
      (\<exists>addr. wallet_address w = Some addr \<and> completes env False addr
         \<lparr>contractAddress = CONTRACT_ID, functionName = ''execute_recurring_payment'',
          args = [ArgAddress addr, ArgU64Str paymentId]\<rparr> h))
   \<and> (fst (cancelRecurringPayment env w paymentId) = Inr h \<longrightarrow>
      (\<exists>addr. wallet_address w = Some addr \<and> completes env False addr
         \<lparr>contractAddress = CONTRACT_ID, functionName = ''cancel_recurring_payment'',
          args = [ArgAddress addr, ArgU64Str paymentId]\<rparr> h))
   \<and> (fst (pauseRecurringPayment env w paymentId) = Inr h \<longrightarrow>
      (\<exists>addr. wallet_address w = Some addr \<and> completes env False addr
         \<lparr>contractAddress = CONTRACT_ID, functionName = ''pause_recurring_payment'',
          args = [ArgAddress addr, ArgU64Str paymentId]\<rparr> h))
   \<and> (fst (proposeTransfer_v1 env w recipient token amount memo) = Inr h \<longrightarrow>
      (\<exists>addr. wallet_address w = Some addr \<and> completes env True addr
         \<lparr>contractAddress = CONTRACT_ID, functionName = ''propose_transfer'',
          args = [ArgAddress addr, ArgAddress recipient, ArgAddress token,
                  ArgBigInt amount, ArgSymbol memo]\<rparr> h))
   \<and> (fst (rejectProposal_v1 env w proposalId) = Inr h \<longrightarrow>
      (\<exists>addr. wallet_address w = Some addr \<and> completes env True addr
         \<lparr>contractAddress = CONTRACT_ID, functionName = ''reject_proposal'',
          args = [ArgAddress addr, ArgU64 proposalId]\<rparr> h))
   \<and> (fetchLatestLedger env = Inl e \<longrightarrow>
        getVaultEvents env dec host clock cur lim = (no_events, [e])
        \<and> getVaultEvents_v1 env dec host clock cur lim = (no_events, [e]))
   \<and> (fetchLatestLedger env = Inr sq
        \<and> fetchEvents env (events_request host cur
              (case lim of None \<Rightarrow> EVENTS_PAGE_SIZE | Some n \<Rightarrow> n) (latest_of sq)) = Inl e \<longrightarrow>
        getVaultEvents env dec host clock cur lim = (no_events, [e])
        \<and> getVaultEvents_v1 env dec host clock cur lim = (no_events, [e]))
   \<and> (fetchLatestLedger env = Inr sq
        \<and> fetchEvents env (events_request host cur
              (case lim of None \<Rightarrow> EVENTS_PAGE_SIZE | Some n \<Rightarrow> n) (latest_of sq)) = Inr data
        \<and> rep_error data = Some m \<longrightarrow>
        fst (getVaultEvents env dec host clock cur lim) = no_events
        \<and> fst (getVaultEvents_v1 env dec host clock cur lim) = no_events)
   \<and> (getAccount env CONTRACT_ID = Inl e \<longrightarrow> getDashboardStats env fmt = (zero_stats, [e]))
   \<and> (getAccount env CONTRACT_ID = Inr acc \<and> balances acc = None \<longrightarrow>
        fst (getDashboardStats env fmt) = zero_stats)
   \<and> getRecurringPayments env now = (mockPayments now, [])"
proof -
  have 1: "fst (proposeTransfer env w recipient token amount memo) = Inr h \<longrightarrow>
      (\<exists>addr. wallet_address w = Some addr \<and> completes env False addr
         \<lparr>contractAddress = CONTRACT_ID, functionName = ''propose_transfer'',
          args = [ArgAddress addr, ArgAddress recipient, ArgAddress token,
                  ArgBigInt amount, ArgSymbol memo]\<rparr> h)"
    unfolding proposeTransfer_def by (simp add: guarded_returns)
  have 2: "fst (rejectProposal env w proposalId) = Inr h \<longrightarrow>
      (\<exists>addr. wallet_address w = Some addr \<and> completes env False addr
         \<lparr>contractAddress = CONTRACT_ID, functionName = ''reject_proposal'',
          args = [ArgAddress addr, ArgU64 proposalId]\<rparr> h)"
    unfolding rejectProposal_def by (simp add: guarded_returns)
  have 3: "fst (executeProposal env w proposalId) = Inr h \<longrightarrow>
      (\<exists>addr. wallet_address w = Some addr \<and> completes env True addr
         \<lparr>contractAddress = CONTRACT_ID, functionName = ''execute_proposal'',
          args = [ArgAddress addr, ArgU64 proposalId]\<rparr> h)"
    unfolding executeProposal_def by (simp add: guarded_returns)
  have 4: "fst (schedulePayment env w params) = Inr h \<longrightarrow>
      (\<exists>addr. wallet_address w = Some addr \<and> completes env False addr
         \<lparr>contractAddress = CONTRACT_ID, functionName = ''schedule_payment'',
          args = [ArgAddress addr, ArgAddress (cp_recipient params),
                  ArgAddress (cp_token params), ArgBigInt (cp_amount params),
                  ArgSymbol (cp_memo params), ArgU64 (cp_interval params)]\<rparr> h)"
    unfolding schedulePayment_def by (simp add: guarded_returns)
  have 5: "fst (executeRecurringPayment env w paymentId) = Inr h \<longrightarrow>
      (\<exists>addr. wallet_address w = Some addr \<and> completes env False addr
         \<lparr>contractAddress = CONTRACT_ID, functionName = ''execute_recurring_payment'',
          args = [ArgAddress addr, ArgU64Str paymentId]\<rparr> h)"
    unfolding executeRecurringPayment_def by (simp add: guarded_returns)
  have 6: "fst (cancelRecurringPayment env w paymentId) = Inr h \<longrightarrow>
      (\<exists>addr. wallet_address w = Some addr \<and> completes env False addr
         \<lparr>contractAddress = CONTRACT_ID, functionName = ''cancel_recurring_payment'',
          args = [ArgAddress addr, ArgU64Str paymentId]\<rparr> h)"
    unfolding cancelRecurringPayment_def by (simp add: guarded_returns)
  have 7: "fst (pauseRecurringPayment env w paymentId) = Inr h \<longrightarrow>
      (\<exists>addr. wallet_address w = Some addr \<and> completes env False addr
         \<lparr>contractAddress = CONTRACT_ID, functionName = ''pause_recurring_payment'',
          args = [ArgAddress addr, ArgU64Str paymentId]\<rparr> h)"
    unfolding pauseRecurringPayment_def by (simp add: guarded_returns)
  have 8: "fst (proposeTransfer_v1 env w recipient token amount memo) = Inr h \<longrightarrow>
      (\<exists>addr. wallet_address w = Some addr \<and> completes env True addr
         \<lparr>contractAddress = CONTRACT_ID, functionName = ''propose_transfer'',
          args = [ArgAddress addr, ArgAddress recipient, ArgAddress token,
                  ArgBigInt amount, ArgSymbol memo]\<rparr> h)"
    unfolding proposeTransfer_v1_def by (simp add: guarded_returns)
  have 9: "fst (rejectProposal_v1 env w proposalId) = Inr h \<longrightarrow>
      (\<exists>addr. wallet_address w = Some addr \<and> completes env True addr
         \<lparr>contractAddress = CONTRACT_ID, functionName = ''reject_proposal'',
          args = [ArgAddress addr, ArgU64 proposalId]\<rparr> h)"
    unfolding rejectProposal_v1_def by (simp add: guarded_returns)
  show ?thesis
    by (intro conjI)
      (rule 1 2 3 4 5 6 7 8 9 getVaultEvents_latest_fails getVaultEvents_events_fails
        getVaultEvents_error_reply getDashboardStats_account_fails
        getDashboardStats_no_balances getRecurringPayments_always)+
qed

theorem mutating_operations_surface_failures_witness:
  "fst (rejectProposal working_rpc connected_wallet 102) = Inr ''abc123''
   \<and> completes working_rpc False ''GA5W...7K9L''
         \<lparr>contractAddress = CONTRACT_ID, functionName = ''reject_proposal'',
          args = [ArgAddress ''GA5W...7K9L'', ArgU64 102]\<rparr> ''abc123''
   \<and> fst (rejectProposal offline_rpc connected_wallet 102) = Inl (Error ''offline'')
   \<and> getDashboardStats offline_rpc id = (zero_stats, [Error ''offline''])
   \<and> fst (getDashboardStats
            (working_rpc\<lparr>getAccount := (\<lambda>a. Inr \<lparr>accountId = a, balances = None\<rparr>)\<rparr>) id)
       = zero_stats
   \<and> getVaultEvents offline_rpc sample_dec sample_host ''now'' None None
       = (no_events, [Error ''offline''])
   \<and> getVaultEvents (working_rpc\<lparr>fetchEvents := (\<lambda>ps. Inl (Error ''timeout''))\<rparr>)
         sample_dec sample_host ''now'' None None
       = (no_events, [Error ''timeout''])
   \<and> fst (getVaultEvents
            (working_rpc\<lparr>fetchEvents :=
               (\<lambda>ps. Inr \<lparr>rep_error = Some ''bad request'', rep_result = None\<rparr>)\<rparr>)
            sample_dec sample_host ''now'' None None)
       = no_events"
proof -
  have r: "fst (rejectProposal working_rpc connected_wallet 102) = Inr ''abc123''"
    by (simp add: rejectProposal_def wallet_address_def no_address_def connected_wallet_def
        invoke_def try_submit_def working_rpc_def)
  have a: "wallet_address connected_wallet = Some ''GA5W...7K9L''"
    by (simp add: wallet_address_def no_address_def connected_wallet_def)
  have o: "fst (rejectProposal offline_rpc connected_wallet 102) = Inl (Error ''offline'')"
    by (simp add: rejectProposal_def wallet_address_def no_address_def connected_wallet_def
        invoke_def try_submit_def offline_rpc_def)
  have g: "getAccount offline_rpc CONTRACT_ID = Inl (Error ''offline'')"
    by (simp add: offline_rpc_def)
  from mutating_operations_surface_failures
         [where env = working_rpc and w = connected_wallet and proposalId = 102
            and h = "''abc123''"] r a
  have c: "completes working_rpc False ''GA5W...7K9L''
         \<lparr>contractAddress = CONTRACT_ID, functionName = ''reject_proposal'',
          args = [ArgAddress ''GA5W...7K9L'', ArgU64 102]\<rparr> ''abc123''"
    by simp
  from mutating_operations_surface_failures
         [where env = offline_rpc and e = "Error ''offline''" and fmt = id] g
  have d: "getDashboardStats offline_rpc id = (zero_stats, [Error ''offline''])"
    by simp
  let ?nb = "working_rpc\<lparr>getAccount := (\<lambda>a. Inr \<lparr>accountId = a, balances = None\<rparr>)\<rparr>"
  have nb: "getAccount ?nb CONTRACT_ID = Inr \<lparr>accountId = CONTRACT_ID, balances = None\<rparr>
            \<and> balances \<lparr>accountId = CONTRACT_ID, balances = None\<rparr> = None"
    by simp
  from mutating_operations_surface_failures
         [where env = ?nb and acc = "\<lparr>accountId = CONTRACT_ID, balances = None\<rparr>"
            and fmt = id] nb
  have d2: "fst (getDashboardStats ?nb id) = zero_stats"
    by simp
  have l: "fetchLatestLedger offline_rpc = Inl (Error ''offline'')"
    by (simp add: offline_rpc_def)
  from mutating_operations_surface_failures
         [where env = offline_rpc and e = "Error ''offline''" and dec = sample_dec
            and host = sample_host and clock = "''now''" and cur = None and lim = None] l
  have v1: "getVaultEvents offline_rpc sample_dec sample_host ''now'' None None
       = (no_events, [Error ''offline''])"
    by simp
  let ?te = "working_rpc\<lparr>fetchEvents := (\<lambda>ps. Inl (Error ''timeout''))\<rparr>"
  have te: "fetchLatestLedger ?te = Inr (Some (JNum 60000))
            \<and> fetchEvents ?te (events_request sample_host None
                  (case None of None \<Rightarrow> EVENTS_PAGE_SIZE | Some n \<Rightarrow> n)
                  (latest_of (Some (JNum 60000)))) = Inl (Error ''timeout'')"
    by (simp add: working_rpc_def)
  from mutating_operations_surface_failures
         [where env = ?te and e = "Error ''timeout''" and dec = sample_dec
            and host = sample_host and clock = "''now''" and cur = None and lim = None
            and sq = "Some (JNum 60000)"] te
  have v2: "getVaultEvents ?te sample_dec sample_host ''now'' None None
       = (no_events, [Error ''timeout''])"
    by simp
  let ?er = "working_rpc\<lparr>fetchEvents :=
               (\<lambda>ps. Inr \<lparr>rep_error = Some ''bad request'', rep_result = None\<rparr>)\<rparr>"
  have er: "fetchLatestLedger ?er = Inr (Some (JNum 60000))
            \<and> fetchEvents ?er (events_request sample_host None
                  (case None of None \<Rightarrow> EVENTS_PAGE_SIZE | Some n \<Rightarrow> n)
                  (latest_of (Some (JNum 60000))))
                = Inr \<lparr>rep_error = Some ''bad request'', rep_result = None\<rparr>
            \<and> rep_error \<lparr>rep_error = Some ''bad request'', rep_result = None\<rparr>
                = Some ''bad request''"
    by (simp add: working_rpc_def)
  from mutating_operations_surface_failures
         [where env = ?er and dec = sample_dec
            and host = sample_host and clock = "''now''" and cur = None and lim = None
            and sq = "Some (JNum 60000)" and m = "''bad request''"
            and data = "\<lparr>rep_error = Some ''bad request'', rep_result = None\<rparr>"] er
  have v3: "fst (getVaultEvents ?er sample_dec sample_host ''now'' None None) = no_events"
    by simp
  from r c o d d2 v1 v2 v3 show ?thesis by simp
qed

theorem read_operations_return_defaults_on_failure:
  "fetchLatestLedger offline_rpc = Inl (Error ''offline'')
   \<and> getVaultEvents offline_rpc sample_dec sample_host ''2024-01-01T00:00:00Z'' None None
       = (\<lparr>activities = [], latestLedger = JStr ''0'', cursor = None, hasMore = False\<rparr>,
          [Error ''offline''])
   \<and> getAccount offline_rpc CONTRACT_ID = Inl (Error ''offline'')
   \<and> fst (getDashboardStats offline_rpc id)
       = \<lparr>totalBalance = ''0'', totalProposals = 0, pendingApprovals = 0, readyToExecute = 0,
          activeSigners = 0, threshold = ''0/0''\<rparr>
   \<and> fst (getRecurringPayments offline_rpc 0) = mockPayments 0"
  by (simp add: offline_rpc_def getVaultEvents_def no_events_def getDashboardStats_def
      getRecurringPayments_def Let_def)

section \<open>Properties of the event log request\<close>

lemma digit_char_facts:
  assumes "d < 10"
  shows "is_digit (digit_char d) \<and> is_ascii (digit_char d) \<and> \<not> is_space (digit_char d)
    \<and> digit_char d \<noteq> CHR ''-'' \<and> digit_char d \<noteq> CHR ''+''
    \<and> digit_value (digit_char d) = d"
proof -
  from assms have "d = 0 \<or> d = 1 \<or> d = 2 \<or> d = 3 \<or> d = 4 \<or> d = 5 \<or> d = 6
    \<or> d = 7 \<or> d = 8 \<or> d = 9"
    by arith
  then show ?thesis
    by (elim disjE)
      (simp_all add: digit_char_def is_digit_def is_ascii_def is_space_def digit_value_def)
qed

lemma show_nat_chars:
  "show_nat n \<noteq> [] \<and> (\<forall>c \<in> set (show_nat n). is_digit c \<and> is_ascii c)"
proof (induction n rule: show_nat.induct)
  case (1 n)
  show ?case
  proof (cases "n < 10")
    case True
    then show ?thesis
      using digit_char_facts [of n] by (simp add: show_nat.simps [of n])
  next
    case False
    have "n mod 10 < 10" by simp
    then show ?thesis
      using False 1 digit_char_facts [of "n mod 10"] by (auto simp: show_nat.simps [of n])
  qed
qed

lemma digits_value_snoc:
  "digits_value (ds @ [c]) = 10 * digits_value ds + digit_value c"
  by (simp add: digits_value_def)

lemma digits_value_show_nat: "digits_value (show_nat n) = n"
proof (induction n rule: show_nat.induct)
  case (1 n)
  show ?case
  proof (cases "n < 10")
    case True
    then show ?thesis
      using digit_char_facts [of n] by (simp add: show_nat.simps [of n] digits_value_def)
  next
    case False
    have "n mod 10 < 10" by simp
    then have "digit_value (digit_char (n mod 10)) = n mod 10"
      using digit_char_facts by blast
    then show ?thesis
      using False 1 by (simp add: show_nat.simps [of n] digits_value_snoc)
  qed
qed

lemma hd_show_nat:
  "\<not> is_space (hd (show_nat n)) \<and> hd (show_nat n) \<noteq> CHR ''-'' \<and> hd (show_nat n) \<noteq> CHR ''+''"
proof (induction n rule: show_nat.induct)
  case (1 n)
  show ?case
  proof (cases "n < 10")
    case True
    then show ?thesis
      using digit_char_facts [of n] by (simp add: show_nat.simps [of n])
  next
    case False
    then show ?thesis
      using 1 show_nat_chars [of "n div 10"] by (simp add: show_nat.simps [of n])
  qed
qed

lemma parseInt_text_show_nat:
  "parseInt_text (show_nat n)
     = (if safe_integer (int n) then Exactly (int n) else ByHost)"
proof -
  have a: "is_ascii (hd (show_nat n))"
    using show_nat_chars [of n] by (cases "show_nat n") simp_all
  have d: "dropWhile is_space (show_nat n) = show_nat n"
    using hd_show_nat [of n] show_nat_chars [of n] by (cases "show_nat n") simp_all
  have t: "takeWhile is_digit (show_nat n) = show_nat n"
    using show_nat_chars [of n] by (simp add: takeWhile_eq_all_conv)
  have h: "show_nat n \<noteq> []" "hd (show_nat n) \<noteq> CHR ''-''" "hd (show_nat n) \<noteq> CHR ''+''"
    using hd_show_nat [of n] show_nat_chars [of n] by simp_all
  show ?thesis
    by (simp add: parseInt_text_def Let_def a d t h digits_value_show_nat)
qed

lemma events_request_limit: "pagination_limit (events_request host cur n latest) = min n 200"
  by (simp add: events_request_def)

lemma events_request_number:
  "\<not> truthy cur \<and> safe_integer l \<longrightarrow>
     startLedger (events_request host cur n (JNum l)) = Some (show_int (max 1 (l - 50000)))
     \<and> pagination_cursor (events_request host cur n (JNum l)) = None"
  by (simp add: events_request_def start_ledger_text_def)

lemma events_request_decimal:
  "\<not> truthy cur \<and> safe_integer (int k) \<longrightarrow>
     startLedger (events_request host cur n (JStr (show_nat k)))
       = Some (show_int (max 1 (int k - 50000)))
     \<and> pagination_cursor (events_request host cur n (JStr (show_nat k))) = None"
  by (simp add: events_request_def start_ledger_text_def parseInt_text_show_nat)

lemma show_int_1: "show_int 1 = ''1''"
  by (simp add: show_int_def show_nat.simps digit_char_def)

lemma show_10000: "show_int 10000 = ''10000''"
  by (simp add: show_int_def show_nat.simps digit_char_def)

lemma show_nat_60000: "show_nat 60000 = ''60000''"
  by (simp add: show_nat.simps digit_char_def)

lemma parseInt_text_examples:
  "parseInt_text ''0'' = Exactly 0
   \<and> parseInt_text ''  60000abc'' = Exactly 60000
   \<and> parseInt_text ''+60000'' = Exactly 60000
   \<and> parseInt_text ''-7'' = Exactly (- 7)
   \<and> parseInt_text ''0x10'' = Exactly 0
   \<and> parseInt_text [] = NaN
   \<and> parseInt_text ''abc'' = NaN
   \<and> parseInt_text ''- 5'' = NaN
   \<and> parseInt_text (CHR 0xA0 # ''5'') = ByHost
   \<and> parseInt_text ''9007199254740993'' = ByHost"
  by (simp add: parseInt_text_def Let_def is_ascii_def is_space_def is_digit_def
      digits_value_def digit_value_def safe_integer_def)

lemma events_request_default:
  "\<not> truthy cur \<longrightarrow>
     startLedger (events_request host cur n (latest_of None)) = Some ''1''"
  by (simp add: events_request_def start_ledger_text_def latest_of_def parseInt_text_examples
      show_int_1)

lemma events_request_texts:
  "\<not> truthy cur \<longrightarrow>
     startLedger (events_request host cur n (JStr ''  60000abc'')) = Some ''10000''
     \<and> startLedger (events_request host cur n (JStr ''+60000'')) = Some ''10000''
     \<and> startLedger (events_request host cur n (JStr ''-7'')) = Some ''1''
     \<and> startLedger (events_request host cur n (JStr ''0x10'')) = Some ''1''
     \<and> startLedger (events_request host cur n (JStr [])) = Some ''NaN''
     \<and> startLedger (events_request host cur n (JStr ''abc'')) = Some ''NaN''
     \<and> startLedger (events_request host cur n (JStr ''9007199254740993''))
         = Some (ledger_text_of host (JStr ''9007199254740993''))"
  by (simp add: events_request_def start_ledger_text_def parseInt_text_examples
      show_int_1 show_10000)

lemma events_request_unsafe:
  "\<not> truthy cur \<and> \<not> safe_integer l \<longrightarrow>
     startLedger (events_request host cur n (JNum l)) = Some (ledger_text_of host (JNum l))"
  by (simp add: events_request_def start_ledger_text_def)

lemma events_request_cursor:
  "truthy cur \<longrightarrow>
     startLedger (events_request host cur n latest) = None
     \<and> pagination_cursor (events_request host cur n latest) = cur"
  by (simp add: events_request_def)

lemma getVaultEvents_hasMore:
  "fetchLatestLedger env = Inr sq
     \<and> fetchEvents env (events_request host cur n (latest_of sq)) = Inr data
     \<and> rep_error data = None \<longrightarrow>
     (hasMore (fst (getVaultEvents env dec host clock cur (Some n)))
        \<longleftrightarrow> truthy (reply_cursor data) \<and> int (length (reply_events data)) = n)
     \<and> (hasMore (fst (getVaultEvents_v1 env dec host clock cur (Some n)))
        \<longleftrightarrow> truthy (reply_cursor data) \<and> int (length (reply_events data)) = n)"
  by (simp add: getVaultEvents_def getVaultEvents_v1_def)

lemma getVaultEvents_hasMore_failed:
  "(\<nexists>sq data. fetchLatestLedger env = Inr sq
       \<and> fetchEvents env (events_request host cur n (latest_of sq)) = Inr data
       \<and> rep_error data = None) \<longrightarrow>
     \<not> hasMore (fst (getVaultEvents env dec host clock cur (Some n)))
     \<and> \<not> hasMore (fst (getVaultEvents_v1 env dec host clock cur (Some n)))"
  by (auto simp: getVaultEvents_def getVaultEvents_v1_def no_events_def
      split: sum.splits option.splits)

lemma getVaultEvents_one_request:
  "fetchLatestLedger env = Inr sq \<and> fetchLatestLedger env' = Inr sq
     \<and> fetchEvents env' (events_request host cur n (latest_of sq))
         = fetchEvents env (events_request host cur n (latest_of sq)) \<longrightarrow>
     getVaultEvents env' dec host clock cur (Some n) = getVaultEvents env dec host clock cur (Some n)
     \<and> getVaultEvents_v1 env' dec host clock cur (Some n)
         = getVaultEvents_v1 env dec host clock cur (Some n)"
  by (simp add: getVaultEvents_def getVaultEvents_v1_def)

lemma getVaultEvents_default_limit:
  "getVaultEvents env dec host clock cur None
     = getVaultEvents env dec host clock cur (Some 20)
   \<and> getVaultEvents_v1 env dec host clock cur None
     = getVaultEvents_v1 env dec host clock cur (Some 20)"
  by (simp add: getVaultEvents_def getVaultEvents_v1_def EVENTS_PAGE_SIZE_def)

text \<open>
  C9. For every call of \<open>getVaultEvents\<close> with page limit \<open>n\<close> (20 when the argument is left
  out), the one events request it sends carries the pagination limit \<open>min n 200\<close>. With no
  cursor its start ledger is \<open>max 1 (latestLedger - 50000)\<close> in decimal, for a latest
  ledger that is a number or its decimal text (within the safe integers, as every ledger
  sequence is), and \<open>1\<close> when the server gave no sequence; text is read as \<open>parseInt\<close>
  reads it (white space and sign first, digits up to the first other character, \<open>NaN\<close>
  without a digit), and beyond the safe integers the text is the one the host computes.
  With a cursor the request carries the cursor and no start ledger. When the request is
  answered, \<open>hasMore\<close> is true if and only if the reply holds a continuation cursor and
  exactly \<open>n\<close> events; a call that gets no answer, or an error for an answer, returns
  \<open>hasMore\<close> false. The same holds in both texts of the hook.
\<close>

theorem getVaultEvents_paging:
  "pagination_limit (events_request host cur n latest) = min n 200
   \<and> (\<not> truthy cur \<and> safe_integer l \<longrightarrow>
        startLedger (events_request host cur n (JNum l)) = Some (show_int (max 1 (l - 50000)))
        \<and> pagination_cursor (events_request host cur n (JNum l)) = None)
   \<and> (\<not> truthy cur \<and> safe_integer (int k) \<longrightarrow>
        startLedger (events_request host cur n (JStr (show_nat k)))
          = Some (show_int (max 1 (int k - 50000)))
        \<and> pagination_cursor (events_request host cur n (JStr (show_nat k))) = None)
   \<and> (\<not> truthy cur \<longrightarrow>
        startLedger (events_request host cur n (latest_of None)) = Some ''1'')
   \<and> (\<not> truthy cur \<longrightarrow>
        startLedger (events_request host cur n (JStr ''  60000abc'')) = Some ''10000''
        \<and> startLedger (events_request host cur n (JStr ''+60000'')) = Some ''10000''
        \<and> startLedger (events_request host cur n (JStr ''-7'')) = Some ''1''
        \<and> startLedger (events_request host cur n (JStr ''0x10'')) = Some ''1''
        \<and> startLedger (events_request host cur n (JStr [])) = Some ''NaN''
        \<and> startLedger (events_request host cur n (JStr ''abc'')) = Some ''NaN''
        \<and> startLedger (events_request host cur n (JStr ''9007199254740993''))
            = Some (ledger_text_of host (JStr ''9007199254740993'')))
   \<and> (\<not> truthy cur \<and> \<not> safe_integer l \<longrightarrow>
        startLedger (events_request host cur n (JNum l)) = Some (ledger_text_of host (JNum l)))
   \<and> (truthy cur \<longrightarrow>
        startLedger (events_request host cur n latest) = None
        \<and> pagination_cursor (events_request host cur n latest) = cur)
   \<and> (fetchLatestLedger env = Inr sq \<and> fetchLatestLedger env' = Inr sq
        \<and> fetchEvents env' (events_request host cur n (latest_of sq))
            = fetchEvents env (events_request host cur n (latest_of sq)) \<longrightarrow>
        getVaultEvents env' dec host clock cur (Some n)
          = getVaultEvents env dec host clock cur (Some n)
        \<and> getVaultEvents_v1 env' dec host clock cur (Some n)
          = getVaultEvents_v1 env dec host clock cur (Some n))
   \<and> (fetchLatestLedger env = Inr sq
        \<and> fetchEvents env (events_request host cur n (latest_of sq)) = Inr data
        \<and> rep_error data = None \<longrightarrow>
        (hasMore (fst (getVaultEvents env dec host clock cur (Some n)))
           \<longleftrightarrow> truthy (reply_cursor data) \<and> int (length (reply_events data)) = n)
        \<and> (hasMore (fst (getVaultEvents_v1 env dec host clock cur (Some n)))
           \<longleftrightarrow> truthy (reply_cursor data) \<and> int (length (reply_events data)) = n))
   \<and> ((\<nexists>sq data. fetchLatestLedger env = Inr sq
          \<and> fetchEvents env (events_request host cur n (latest_of sq)) = Inr data
          \<and> rep_error data = None) \<longrightarrow>
        \<not> hasMore (fst (getVaultEvents env dec host clock cur (Some n)))
        \<and> \<not> hasMore (fst (getVaultEvents_v1 env dec host clock cur (Some n))))
   \<and> getVaultEvents env dec host clock cur None
       = getVaultEvents env dec host clock cur (Some 20)
   \<and> getVaultEvents_v1 env dec host clock cur None
       = getVaultEvents_v1 env dec host clock cur (Some 20)"
  by (intro conjI)
    (rule events_request_limit events_request_number events_request_decimal
      events_request_default events_request_texts events_request_unsafe events_request_cursor
      getVaultEvents_one_request getVaultEvents_hasMore getVaultEvents_hasMore_failed
      getVaultEvents_default_limit [THEN conjunct1] getVaultEvents_default_limit [THEN conjunct2])+

theorem getVaultEvents_paging_witness:
  "pagination_limit (events_request sample_host None 500 (JNum 60000)) = 200
   \<and> startLedger (events_request sample_host None 500 (JNum 60000)) = Some ''10000''
   \<and> startLedger (events_request sample_host None 500 (JStr ''60000'')) = Some ''10000''
   \<and> startLedger (events_request sample_host None 500 (latest_of None)) = Some ''1''
   \<and> startLedger (events_request sample_host None 500 (JStr ''9007199254740993''))
       = Some ''9007199254690992''
   \<and> startLedger (events_request sample_host (Some ''c0'') 1 (JNum 60000)) = None
   \<and> hasMore (fst (getVaultEvents working_rpc sample_dec sample_host ''now'' None (Some 1)))
   \<and> \<not> hasMore (fst (getVaultEvents working_rpc sample_dec sample_host ''now'' None (Some 2)))
   \<and> \<not> hasMore (fst (getVaultEvents offline_rpc sample_dec sample_host ''now'' None (Some 1)))
   \<and> getVaultEvents
        (working_rpc\<lparr>fetchEvents :=
           (\<lambda>ps. if ps = events_request sample_host None 1 (JNum 60000)
                 then fetchEvents working_rpc ps
                 else Inl (Error ''other request''))\<rparr>)
        sample_dec sample_host ''now'' None (Some 1)
       = getVaultEvents working_rpc sample_dec sample_host ''now'' None (Some 1)"
proof -
  let ?reply = "\<lparr>rep_error = None,
      rep_result = Some \<lparr>res_events = Some [sample_event], res_cursor = Some ''c1'',
                         res_latestLedger = Some (JNum 60000)\<rparr>\<rparr>"
  have t: "\<not> truthy None" "truthy (Some ''c0'')"
    by (simp_all add: truthy_def)
  have p: "safe_integer 60000" "safe_integer (int 60000)"
    by (simp_all add: safe_integer_def)
  have f: "fetchLatestLedger working_rpc = Inr (Some (JNum 60000))"
    "\<And>ps. fetchEvents working_rpc ps = Inr ?reply"
    "rep_error ?reply = None" "truthy (reply_cursor ?reply)" "length (reply_events ?reply) = 1"
    by (simp_all add: working_rpc_def truthy_def reply_cursor_def reply_events_def)
  from getVaultEvents_paging [where env = working_rpc and cur = None and n = 1
      and sq = "Some (JNum 60000)" and data = ?reply and dec = sample_dec
      and host = sample_host and clock = "''now''", THEN conjunct2, THEN conjunct2, THEN conjunct2, THEN conjunct2, THEN conjunct2, THEN conjunct2, THEN conjunct2, THEN conjunct2, THEN conjunct1] f
  have h1: "hasMore (fst (getVaultEvents working_rpc sample_dec sample_host ''now'' None (Some 1)))"
    by simp
  from getVaultEvents_paging [where env = working_rpc and cur = None and n = 2
      and sq = "Some (JNum 60000)" and data = ?reply and dec = sample_dec
      and host = sample_host and clock = "''now''", THEN conjunct2, THEN conjunct2, THEN conjunct2, THEN conjunct2, THEN conjunct2, THEN conjunct2, THEN conjunct2, THEN conjunct2, THEN conjunct1] f
  have h2: "\<not> hasMore (fst (getVaultEvents working_rpc sample_dec sample_host ''now'' None (Some 2)))"
    by simp
  have off: "fetchLatestLedger offline_rpc = Inl (Error ''offline'')"
    by (simp add: offline_rpc_def)
  from getVaultEvents_paging [where env = offline_rpc and cur = None and n = 1
      and dec = sample_dec and host = sample_host and clock = "''now''", THEN conjunct2, THEN conjunct2, THEN conjunct2, THEN conjunct2, THEN conjunct2, THEN conjunct2, THEN conjunct2, THEN conjunct2, THEN conjunct2, THEN conjunct1] off
  have h3: "\<not> hasMore (fst (getVaultEvents offline_rpc sample_dec sample_host ''now'' None (Some 1)))"
    by simp
  from getVaultEvents_paging [where cur = None and n = 500 and latest = "JNum 60000"
      and host = sample_host, THEN conjunct1]
    getVaultEvents_paging [where cur = None and n = 500 and host = sample_host
      and l = 60000, THEN conjunct2, THEN conjunct1] t p
  have a: "pagination_limit (events_request sample_host None 500 (JNum 60000)) = 200
     \<and> startLedger (events_request sample_host None 500 (JNum 60000)) = Some ''10000''"
    by (simp add: show_10000)
  from getVaultEvents_paging [where cur = None and n = 500 and host = sample_host
      and k = 60000, THEN conjunct2, THEN conjunct2, THEN conjunct1] t p
  have a2: "startLedger (events_request sample_host None 500 (JStr ''60000'')) = Some ''10000''"
    by (simp add: show_10000 show_nat_60000)
  from getVaultEvents_paging [where cur = None and n = 500 and host = sample_host, THEN conjunct2, THEN conjunct2, THEN conjunct2, THEN conjunct1] t
  have a3: "startLedger (events_request sample_host None 500 (latest_of None)) = Some ''1''"
    by simp
  from getVaultEvents_paging [where cur = None and n = 500 and host = sample_host, THEN conjunct2, THEN conjunct2, THEN conjunct2, THEN conjunct2, THEN conjunct1] t
  have a4: "startLedger (events_request sample_host None 500 (JStr ''9007199254740993''))
       = Some ''9007199254690992''"
    by (simp add: sample_host_def)
  from getVaultEvents_paging [where cur = "Some ''c0''" and n = 1 and latest = "JNum 60000"
      and host = sample_host, THEN conjunct2, THEN conjunct2, THEN conjunct2, THEN conjunct2, THEN conjunct2, THEN conjunct2, THEN conjunct1] t
  have b: "startLedger (events_request sample_host (Some ''c0'') 1 (JNum 60000)) = None"
    by simp
  let ?o = "working_rpc\<lparr>fetchEvents :=
           (\<lambda>ps. if ps = events_request sample_host None 1 (JNum 60000)
                 then fetchEvents working_rpc ps
                 else Inl (Error ''other request''))\<rparr>"
  have q: "fetchLatestLedger working_rpc = Inr (Some (JNum 60000))
     \<and> fetchLatestLedger ?o = Inr (Some (JNum 60000))
     \<and> fetchEvents ?o (events_request sample_host None 1 (latest_of (Some (JNum 60000))))
         = fetchEvents working_rpc
             (events_request sample_host None 1 (latest_of (Some (JNum 60000))))"
    by (simp add: working_rpc_def latest_of_def)
  from getVaultEvents_paging [where env = working_rpc and env' = ?o and cur = None and n = 1
      and sq = "Some (JNum 60000)" and dec = sample_dec and host = sample_host
      and clock = "''now''", THEN conjunct2, THEN conjunct2, THEN conjunct2, THEN conjunct2, THEN conjunct2, THEN conjunct2, THEN conjunct2, THEN conjunct1] q
  have c: "getVaultEvents ?o sample_dec sample_host ''now'' None (Some 1)
       = getVaultEvents working_rpc sample_dec sample_host ''now'' None (Some 1)"
    by (rule mp [THEN conjunct1])
  from a a2 a3 a4 b h1 h2 h3 c show ?thesis by simp
qed

section \<open>Properties of the spending limit tracker\<close>

lemma load_window_counted:
  "bucket_start len now = b \<Longrightarrow> consumed (load_window len now stored) = counted b stored"
  by (cases stored) (auto simp: load_window_def counted_def Let_def)

lemma load_window_start:
  "bucket_start len now = b \<Longrightarrow> \<not> window_start (load_window len now stored) < b"
  by (cases stored) (auto simp: load_window_def Let_def)

lemma consume_for_eq:
  "consume_for cfg dl wl t e = check_and_consume cfg dl wl (exec_amount e) (exec_time e) t"
  by (cases e) simp_all

lemma consume_accepts:
  assumes "consume_for cfg dl wl t e = Inr t'"
  shows "counted (bucket_start dl (exec_time e)) (daily t') 
           = counted (bucket_start dl (exec_time e)) (daily t) + exec_amount e"
    and "counted (bucket_start wl (exec_time e)) (weekly t') 
           = counted (bucket_start wl (exec_time e)) (weekly t) + exec_amount e"
    and "counted (bucket_start dl (exec_time e)) (daily t') \<le> daily_limit cfg"
    and "counted (bucket_start wl (exec_time e)) (weekly t') \<le> weekly_limit cfg"
proof -
  let ?d = "load_window dl (exec_time e) (daily t)"
  let ?w = "load_window wl (exec_time e) (weekly t)"
  from assms have ok: "\<not> (daily_limit cfg < consumed ?d + exec_amount e
      \<or> weekly_limit cfg < consumed ?w + exec_amount e)"
    and t': "t' = \<lparr>daily = Some (?d\<lparr>consumed := consumed ?d + exec_amount e\<rparr>),
                   weekly = Some (?w\<lparr>consumed := consumed ?w + exec_amount e\<rparr>)\<rparr>"
    by (auto simp: consume_for_eq check_and_consume_def Let_def split: if_splits)
  have sd: "\<not> window_start ?d < bucket_start dl (exec_time e)"
    by (rule load_window_start) simp
  have sw: "\<not> window_start ?w < bucket_start wl (exec_time e)"
    by (rule load_window_start) simp
  have cd: "consumed ?d = counted (bucket_start dl (exec_time e)) (daily t)"
    by (rule load_window_counted) simp
  have cw: "consumed ?w = counted (bucket_start wl (exec_time e)) (weekly t)"
    by (rule load_window_counted) simp
  show "counted (bucket_start dl (exec_time e)) (daily t') 
           = counted (bucket_start dl (exec_time e)) (daily t) + exec_amount e"
    using t' sd cd by (simp add: counted_def)
  show "counted (bucket_start wl (exec_time e)) (weekly t') 
           = counted (bucket_start wl (exec_time e)) (weekly t) + exec_amount e"
    using t' sw cw by (simp add: counted_def)
  show "counted (bucket_start dl (exec_time e)) (daily t') \<le> daily_limit cfg"
    using t' sd ok by (simp add: counted_def)
  show "counted (bucket_start wl (exec_time e)) (weekly t') \<le> weekly_limit cfg"
    using t' sw ok by (simp add: counted_def)
qed

lemma run_daily:
  "\<forall>e \<in> set es. bucket_start dl (exec_time e) = b \<Longrightarrow>
   run_executions cfg dl wl t es = (tf, released) \<Longrightarrow>
   counted b (daily t) + sum_list released = counted b (daily tf)
   \<and> (released \<noteq> [] \<longrightarrow> counted b (daily tf) \<le> daily_limit cfg)"
proof (induction es arbitrary: t tf released)
  case Nil
  then show ?case by simp
next
  case (Cons e es)
  from Cons.prems(1) have be: "bucket_start dl (exec_time e) = b"
    and rest: "\<forall>x \<in> set es. bucket_start dl (exec_time x) = b"
    by simp_all
  show ?case
  proof (cases "consume_for cfg dl wl t e")
    case (Inl err)
    with Cons.prems(2) have "run_executions cfg dl wl t es = (tf, released)"
      by simp
    from Cons.IH [OF rest this] show ?thesis .
  next
    case (Inr t')
    obtain tf' rel' where r: "run_executions cfg dl wl t' es = (tf', rel')"
      by (cases "run_executions cfg dl wl t' es")
    with Inr Cons.prems(2) have tf: "tf = tf'" and rel: "released = exec_amount e # rel'"
      by simp_all
    from Cons.IH [OF rest r]
    have ih: "counted b (daily t') + sum_list rel' = counted b (daily tf')"
      and ih2: "rel' \<noteq> [] \<longrightarrow> counted b (daily tf') \<le> daily_limit cfg"
      by simp_all
    from consume_accepts(1,3) [OF Inr] be
    have st: "counted b (daily t') = counted b (daily t) + exec_amount e"
      and le: "counted b (daily t') \<le> daily_limit cfg"
      by simp_all
    have "counted b (daily tf') \<le> daily_limit cfg"
    proof (cases "rel' = []")
      case True
      with ih le show ?thesis by simp
    next
      case False
      with ih2 show ?thesis by simp
    qed
    with ih st tf rel show ?thesis by simp
  qed
qed

lemma run_weekly:
  "\<forall>e \<in> set es. bucket_start wl (exec_time e) = b \<Longrightarrow>
   run_executions cfg dl wl t es = (tf, released) \<Longrightarrow>
   counted b (weekly t) + sum_list released = counted b (weekly tf)
   \<and> (released \<noteq> [] \<longrightarrow> counted b (weekly tf) \<le> weekly_limit cfg)"
proof (induction es arbitrary: t tf released)
  case Nil
  then show ?case by simp
next
  case (Cons e es)
  from Cons.prems(1) have be: "bucket_start wl (exec_time e) = b"
    and rest: "\<forall>x \<in> set es. bucket_start wl (exec_time x) = b"
    by simp_all
  show ?case
  proof (cases "consume_for cfg dl wl t e")
    case (Inl err)
    with Cons.prems(2) have "run_executions cfg dl wl t es = (tf, released)"
      by simp
    from Cons.IH [OF rest this] show ?thesis .
  next
    case (Inr t')
    obtain tf' rel' where r: "run_executions cfg dl wl t' es = (tf', rel')"
      by (cases "run_executions cfg dl wl t' es")
    with Inr Cons.prems(2) have tf: "tf = tf'" and rel: "released = exec_amount e # rel'"
      by simp_all
    from Cons.IH [OF rest r]
    have ih: "counted b (weekly t') + sum_list rel' = counted b (weekly tf')"
      and ih2: "rel' \<noteq> [] \<longrightarrow> counted b (weekly tf') \<le> weekly_limit cfg"
      by simp_all
    from consume_accepts(2,4) [OF Inr] be
    have st: "counted b (weekly t') = counted b (weekly t) + exec_amount e"
      and le: "counted b (weekly t') \<le> weekly_limit cfg"
      by simp_all
    have "counted b (weekly tf') \<le> weekly_limit cfg"
    proof (cases "rel' = []")
      case True
      with ih le show ?thesis by simp
    next
      case False
      with ih2 show ?thesis by simp
    qed
    with ih st tf rel show ?thesis by simp
  qed
qed

lemma released_le_daily:
  assumes "\<forall>e \<in> set es. bucket_start dl (exec_time e) = b"
  shows "sum_list (snd (run_executions cfg dl wl t es)) \<le> daily_limit cfg"
proof -
  obtain tf released where r: "run_executions cfg dl wl t es = (tf, released)"
    by (cases "run_executions cfg dl wl t es")
  from run_daily [OF assms r] have "sum_list released \<le> daily_limit cfg"
    by (cases "released = []") simp_all
  with r show ?thesis by simp
qed

lemma released_le_weekly:
  assumes "\<forall>e \<in> set es. bucket_start wl (exec_time e) = b"
  shows "sum_list (snd (run_executions cfg dl wl t es)) \<le> weekly_limit cfg"
proof -
  obtain tf released where r: "run_executions cfg dl wl t es = (tf, released)"
    by (cases "run_executions cfg dl wl t es")
  from run_weekly [OF assms r] have "sum_list released \<le> weekly_limit cfg"
    by (cases "released = []") simp_all
  with r show ?thesis by simp
qed

lemma rejected_iff:
  "consume_for cfg dl wl t e = Inl LimitExceeded \<longleftrightarrow>
     daily_limit cfg < counted (bucket_start dl (exec_time e)) (daily t) + exec_amount e
     \<or> weekly_limit cfg < counted (bucket_start wl (exec_time e)) (weekly t) + exec_amount e"
proof -
  have cd: "consumed (load_window dl (exec_time e) (daily t))
              = counted (bucket_start dl (exec_time e)) (daily t)"
    by (rule load_window_counted) simp
  have cw: "consumed (load_window wl (exec_time e) (weekly t))
              = counted (bucket_start wl (exec_time e)) (weekly t)"
    by (rule load_window_counted) simp
  show ?thesis
    using cd cw by (simp add: consume_for_eq check_and_consume_def Let_def)
qed

lemma rejected_unchanged:
  "consume_for cfg dl wl t e = Inl err \<Longrightarrow> tracker_after cfg dl wl t e = t"
  by (simp add: tracker_after_def)

lemma accepted_increments:
  "consume_for cfg dl wl t e = Inr t' \<longrightarrow>
     counted (bucket_start dl (exec_time e)) (daily t')
       = counted (bucket_start dl (exec_time e)) (daily t) + exec_amount e
   \<and> counted (bucket_start wl (exec_time e)) (weekly t')
       = counted (bucket_start wl (exec_time e)) (weekly t) + exec_amount e
   \<and> counted (bucket_start dl (exec_time e)) (daily t') \<le> daily_limit cfg
   \<and> counted (bucket_start wl (exec_time e)) (weekly t') \<le> weekly_limit cfg
   \<and> tracker_after cfg dl wl t e = t'"
  using consume_accepts [of cfg dl wl t e t'] by (simp add: tracker_after_def)

lemma within_daily:
  "(\<forall>x \<in> set es. bucket_start dl (exec_time x) = b) \<longrightarrow>
     sum_list (snd (run_executions cfg dl wl t es)) \<le> daily_limit cfg
     \<and> (snd (run_executions cfg dl wl t es) \<noteq> [] \<longrightarrow>
          counted b (daily t) + sum_list (snd (run_executions cfg dl wl t es)) \<le> daily_limit cfg)"
proof
  assume a: "\<forall>x \<in> set es. bucket_start dl (exec_time x) = b"
  obtain tf released where r: "run_executions cfg dl wl t es = (tf, released)"
    by (cases "run_executions cfg dl wl t es")
  from run_daily [OF a r] released_le_daily [OF a, of cfg wl t] r
  show "sum_list (snd (run_executions cfg dl wl t es)) \<le> daily_limit cfg
     \<and> (snd (run_executions cfg dl wl t es) \<noteq> [] \<longrightarrow>
          counted b (daily t) + sum_list (snd (run_executions cfg dl wl t es)) \<le> daily_limit cfg)"
    by simp
qed

lemma within_weekly:
  "(\<forall>x \<in> set es. bucket_start wl (exec_time x) = b') \<longrightarrow>
     sum_list (snd (run_executions cfg dl wl t es)) \<le> weekly_limit cfg
     \<and> (snd (run_executions cfg dl wl t es) \<noteq> [] \<longrightarrow>
          counted b' (weekly t) + sum_list (snd (run_executions cfg dl wl t es)) \<le> weekly_limit cfg)"
proof
  assume a: "\<forall>x \<in> set es. bucket_start wl (exec_time x) = b'"
  obtain tf released where r: "run_executions cfg dl wl t es = (tf, released)"
    by (cases "run_executions cfg dl wl t es")
  from run_weekly [OF a r] released_le_weekly [OF a, of cfg dl t] r
  show "sum_list (snd (run_executions cfg dl wl t es)) \<le> weekly_limit cfg
     \<and> (snd (run_executions cfg dl wl t es) \<noteq> [] \<longrightarrow>
          counted b' (weekly t) + sum_list (snd (run_executions cfg dl wl t es)) \<le> weekly_limit cfg)"
    by simp
qed

lemma over_limit_rejected:
  "daily_limit cfg < counted (bucket_start dl (exec_time e)) (daily t) + exec_amount e
     \<or> weekly_limit cfg < counted (bucket_start wl (exec_time e)) (weekly t) + exec_amount e \<longrightarrow>
     consume_for cfg dl wl t e = Inl LimitExceeded \<and> tracker_after cfg dl wl t e = t"
  using rejected_iff [of cfg dl wl t e] rejected_unchanged [of cfg dl wl t e LimitExceeded]
  by simp

text \<open>
  C1. For every sequence of executions, manual or recurring, that fall in one daily window,
  the sum of the released amounts never exceeds \<open>daily_limit\<close>, also counted together with
  what the window had consumed before; likewise for one weekly window and
  \<open>weekly_limit\<close>. A single execution that would push either counter over its limit is
  rejected with \<open>LimitExceeded\<close> and leaves the tracker as it was; an accepted one adds its
  amount to both counters.
\<close>

theorem spending_limits_never_exceeded:
  "((\<forall>x \<in> set es. bucket_start dl (exec_time x) = b) \<longrightarrow>
      sum_list (snd (run_executions cfg dl wl t es)) \<le> daily_limit cfg
      \<and> (snd (run_executions cfg dl wl t es) \<noteq> [] \<longrightarrow>
           counted b (daily t) + sum_list (snd (run_executions cfg dl wl t es))
             \<le> daily_limit cfg))
   \<and> ((\<forall>x \<in> set es. bucket_start wl (exec_time x) = b') \<longrightarrow>
      sum_list (snd (run_executions cfg dl wl t es)) \<le> weekly_limit cfg
      \<and> (snd (run_executions cfg dl wl t es) \<noteq> [] \<longrightarrow>
           counted b' (weekly t) + sum_list (snd (run_executions cfg dl wl t es))
             \<le> weekly_limit cfg))
   \<and> (daily_limit cfg < counted (bucket_start dl (exec_time e)) (daily t) + exec_amount e
        \<or> weekly_limit cfg < counted (bucket_start wl (exec_time e)) (weekly t) + exec_amount e
       \<longrightarrow> consume_for cfg dl wl t e = Inl LimitExceeded \<and> tracker_after cfg dl wl t e = t)
   \<and> (consume_for cfg dl wl t e = Inl LimitExceeded \<longleftrightarrow>
        daily_limit cfg < counted (bucket_start dl (exec_time e)) (daily t) + exec_amount e
        \<or> weekly_limit cfg < counted (bucket_start wl (exec_time e)) (weekly t) + exec_amount e)
   \<and> (consume_for cfg dl wl t e = Inr t' \<longrightarrow>
        counted (bucket_start dl (exec_time e)) (daily t')
          = counted (bucket_start dl (exec_time e)) (daily t) + exec_amount e
        \<and> counted (bucket_start wl (exec_time e)) (weekly t')
          = counted (bucket_start wl (exec_time e)) (weekly t) + exec_amount e
        \<and> counted (bucket_start dl (exec_time e)) (daily t') \<le> daily_limit cfg
        \<and> counted (bucket_start wl (exec_time e)) (weekly t') \<le> weekly_limit cfg
        \<and> tracker_after cfg dl wl t e = t')"
  by (intro conjI)
    (rule within_daily within_weekly over_limit_rejected rejected_iff accepted_increments)+

lemma sample_run:
  "run_executions sample_config 86400 604800 empty_tracker [Manual 600 100, Recurring 600 200]
     = (\<lparr>daily = Some \<lparr>window_start = 0, consumed = 600\<rparr>,
         weekly = Some \<lparr>window_start = 0, consumed = 600\<rparr>\<rparr>, [600])"
  by (simp add: check_and_consume_def load_window_def bucket_start_def sample_config_def
      empty_tracker_def Let_def)

theorem spending_limits_never_exceeded_witness:
  "snd (run_executions sample_config 86400 604800 empty_tracker
          [Manual 600 100, Recurring 600 200]) = [600]
   \<and> sum_list (snd (run_executions sample_config 86400 604800 empty_tracker
          [Manual 600 100, Recurring 600 200])) \<le> daily_limit sample_config
   \<and> sum_list (snd (run_executions sample_config 86400 604800 empty_tracker
          [Manual 600 100, Recurring 600 200])) \<le> weekly_limit sample_config
   \<and> consume_for sample_config 86400 604800
        \<lparr>daily = Some \<lparr>window_start = 0, consumed = 600\<rparr>,
         weekly = Some \<lparr>window_start = 0, consumed = 600\<rparr>\<rparr> (Recurring 600 200)
       = Inl LimitExceeded
   \<and> tracker_after sample_config 86400 604800
        \<lparr>daily = Some \<lparr>window_start = 0, consumed = 600\<rparr>,
         weekly = Some \<lparr>window_start = 0, consumed = 600\<rparr>\<rparr> (Recurring 600 200)
       = \<lparr>daily = Some \<lparr>window_start = 0, consumed = 600\<rparr>,
          weekly = Some \<lparr>window_start = 0, consumed = 600\<rparr>\<rparr>
   \<and> tracker_after sample_config 86400 604800 empty_tracker (Manual 600 100)
       = \<lparr>daily = Some \<lparr>window_start = 0, consumed = 600\<rparr>,
          weekly = Some \<lparr>window_start = 0, consumed = 600\<rparr>\<rparr>"
proof -
  let ?es = "[Manual 600 100, Recurring 600 200]"
  let ?t1 = "\<lparr>daily = Some \<lparr>window_start = 0, consumed = 600\<rparr>,
              weekly = Some \<lparr>window_start = 0, consumed = 600\<rparr>\<rparr>"
  have d: "\<forall>x \<in> set ?es. bucket_start 86400 (exec_time x) = 0"
    by (simp add: bucket_start_def)
  have w: "\<forall>x \<in> set ?es. bucket_start 604800 (exec_time x) = 0"
    by (simp add: bucket_start_def)
  have over: "daily_limit sample_config
                < counted (bucket_start 86400 (exec_time (Recurring 600 200))) (daily ?t1)
                  + exec_amount (Recurring 600 200)"
    by (simp add: sample_config_def counted_def bucket_start_def)
  have acc: "consume_for sample_config 86400 604800 empty_tracker (Manual 600 100) = Inr ?t1"
    by (simp add: check_and_consume_def load_window_def bucket_start_def sample_config_def
        empty_tracker_def Let_def)
  note run = spending_limits_never_exceeded
      [where es = ?es and dl = 86400 and wl = 604800 and b = 0 and b' = 0
         and cfg = sample_config and t = empty_tracker]
  from run d w
  have sums: "sum_list (snd (run_executions sample_config 86400 604800 empty_tracker ?es))
                \<le> daily_limit sample_config
            \<and> sum_list (snd (run_executions sample_config 86400 604800 empty_tracker ?es))
                \<le> weekly_limit sample_config"
    by blast
  from spending_limits_never_exceeded
      [where dl = 86400 and wl = 604800 and cfg = sample_config and t = ?t1
         and e = "Recurring 600 200"] over
  have rej: "consume_for sample_config 86400 604800 ?t1 (Recurring 600 200) = Inl LimitExceeded
           \<and> tracker_after sample_config 86400 604800 ?t1 (Recurring 600 200) = ?t1"
    by blast
  from spending_limits_never_exceeded
      [where dl = 86400 and wl = 604800 and cfg = sample_config and t = empty_tracker
         and e = "Manual 600 100" and t' = ?t1] acc
  have ok: "tracker_after sample_config 86400 604800 empty_tracker (Manual 600 100) = ?t1"
    by blast
  from sample_run sums rej ok show ?thesis by simp
qed

end
